theory Spec2Isabelle
  imports Complex_Main "HOL-Library.Multiset" "HOL-Library.AList"
begin

section \<open>Data model (types/quiz, as used by QuizContext and Question.tsx)\<close>

text \<open>
  A JavaScript \<open>number\<close> that a caller hands in and the program stores unchecked (the
  arguments of \<open>updateTimer\<close> and \<open>updateAnswer\<close>) is a \<open>number\<close>: an integer, \<open>NaN\<close> or
  an infinity. The numbers the program computes or checks itself (indices, positions,
  question ids of the bank, \<open>Date.now()\<close>) are \<open>int\<close>. \<open>null\<close> and \<open>undefined\<close> in a
  \<open>number | null\<close> position are \<open>None\<close>; neither is ever \<open>===\<close> to a number, and \<open>NaN\<close>
  and the infinities are never \<open>===\<close> to an integer. The question id handed to
  \<open>updateAnswer\<close> and the index handed to \<open>goToQuestion\<close> are only compared, and \<open>NaN\<close> or
  an infinity there fails the comparisons as an integer outside the bank does; they are
  \<open>int\<close>.
  The field \<open>id\<close> of a question is written \<open>idQ\<close>, and the field \<open>value\<close> of a
  shuffled option \<open>valueO\<close>, because the source's names are taken in Isabelle.
\<close>

datatype number = Fin int | NaN | PosInfinity | NegInfinity

record Question =
  idQ :: int
  question :: string
  options :: "string list"
  correctAnswer :: int

record UserAnswer =
  questionId :: int
  selectedAnswer :: "number option"
  isAnswered :: bool

record QuizState =
  currentQuestion :: int
  answers :: "UserAnswer list"
  timeRemaining :: number
  isCompleted :: bool
  startTime :: int

record ShuffledOption =
  originalIndex :: int
  valueO :: string

datatype error = TypeError | SyntaxError

section \<open>Question.tsx: shuffling the options\<close>

text \<open>
  \<open>[newArray[i], newArray[j]] = [newArray[j], newArray[i]]\<close>: both reads happen first,
  then position \<open>i\<close> and position \<open>j\<close> are written in this order. In \<open>shuffleArray\<close> the
  index \<open>i\<close> is inside the array by the loop bounds, and \<open>j \<le> i\<close> for a draw in
  \<open>[0, 1)\<close>, so no read or write falls outside it.
\<close>

definition swap :: "'a list \<Rightarrow> nat \<Rightarrow> nat \<Rightarrow> 'a list" where
  "swap newArray i j = newArray[i := newArray ! j, j := newArray ! i]"

text \<open>
  The loop \<open>for (let i = newArray.length - 1; i > 0; i--)\<close>. The argument \<open>rnd i\<close> is the
  value that \<open>Math.random()\<close> returns in the iteration whose loop variable is \<open>i\<close>;
  \<open>j = Math.floor(Math.random() * (i + 1))\<close>.
\<close>

fun shuffle_loop :: "(nat \<Rightarrow> real) \<Rightarrow> nat \<Rightarrow> 'a list \<Rightarrow> 'a list" where
  "shuffle_loop rnd 0 newArray = newArray"
| "shuffle_loop rnd (Suc k) newArray =
     (let i = Suc k;
          j = nat \<lfloor>rnd i * real (i + 1)\<rfloor>
      in shuffle_loop rnd k (swap newArray i j))"

text \<open>
  For the empty array the source starts at \<open>i = -1\<close> and the loop body never runs; the
  truncating subtraction starts at \<open>0\<close>, where it does not run either.
\<close>

definition shuffleArray :: "(nat \<Rightarrow> real) \<Rightarrow> 'a list \<Rightarrow> 'a list" where
  "shuffleArray rnd array = shuffle_loop rnd (length array - 1) array"

text \<open>\<open>question.options.map((option, index) => ({originalIndex: index, value: option}))\<close>\<close>

definition optionsWithIndex :: "Question \<Rightarrow> ShuffledOption list" where
  "optionsWithIndex q =
     map (\<lambda>(index, option). \<lparr>originalIndex = int index, valueO = option\<rparr>)
         (enumerate 0 (options q))"

definition shuffledOptions :: "(nat \<Rightarrow> real) \<Rightarrow> Question \<Rightarrow> ShuffledOption list" where
  "shuffledOptions rnd q = shuffleArray rnd (optionsWithIndex q)"

text \<open>The contract of \<open>Math.random()\<close>: every draw lies in \<open>[0, 1)\<close>.\<close>

definition random_draws :: "(nat \<Rightarrow> real) \<Rightarrow> bool" where
  "random_draws rnd = (\<forall>i. 0 \<le> rnd i \<and> rnd i < 1)"

section \<open>The durable store and JSON\<close>

text \<open>
  The values that \<open>JSON.parse\<close> returns. An object is the list of its own properties in
  order; \<open>map_of\<close> reads a property.
\<close>

datatype json =
    JNull
  | JBool bool
  | JNum number
  | JStr string
  | JArr "json list"
  | JObj "(string \<times> json) list"

text \<open>
  \<open>localStorage\<close> holds strings. The program only tests a stored string for emptiness,
  hands it to \<open>JSON.parse\<close>, or compares it with \<open>'true'\<close>, so a stored string is
  represented by what \<open>JSON.parse\<close> makes of it: the empty string, a non-empty string
  outside the JSON grammar, or a text denoting a value. The string \<open>'true'\<close> is the text of
  the value \<open>true\<close>.
\<close>

datatype stored = Empty | Malformed | Json json

definition JSON_parse :: "stored \<Rightarrow> error + json" where
  "JSON_parse saved = (case saved of Json v \<Rightarrow> Inr v | _ \<Rightarrow> Inl SyntaxError)"

text \<open>
  \<open>JSON.stringify\<close> writes \<open>NaN\<close> and the infinities as \<open>null\<close>, wherever they stand in the
  value; \<open>written v\<close> is the value that the text denotes. A value built from null, booleans,
  finite numbers, strings, arrays and plain objects is written as it is (ECMAScript, 25.5).
\<close>

primrec written :: "json \<Rightarrow> json" where
  "written JNull = JNull"
| "written (JBool b) = JBool b"
| "written (JNum n) = (case n of Fin i \<Rightarrow> JNum (Fin i) | _ \<Rightarrow> JNull)"
| "written (JStr s) = JStr s"
| "written (JArr vs) = JArr (map written vs)"
| "written (JObj kvs) = JObj (map (map_prod id written) kvs)"

definition JSON_stringify :: "json \<Rightarrow> stored" where
  "JSON_stringify v = Json (written v)"

type_synonym storage = "string \<Rightarrow> stored option"

definition QUIZ_DURATION :: int where
  "QUIZ_DURATION = 90 * 60 * 1000"

definition STORAGE_KEY :: string where
  "STORAGE_KEY = ''quiz-state''"

definition USER_STORAGE_KEY :: string where
  "USER_STORAGE_KEY = ''quiz-user''"

definition START_STORAGE_KEY :: string where
  "START_STORAGE_KEY = ''quiz-started''"

definition COMPLETED_KEY :: string where
  \<comment> \<open>the literal \<open>'quiz-completed'\<close> of \<open>submitQuiz\<close> and \<open>resetQuiz\<close>\<close>
  "COMPLETED_KEY = ''quiz-completed''"

text \<open>What \<open>JSON.stringify(quizState)\<close> serialises: the fields in creation order.\<close>

definition jsonUserAnswer :: "UserAnswer \<Rightarrow> json" where
  "jsonUserAnswer a =
     JObj [(''questionId'', JNum (Fin (questionId a))),
           (''selectedAnswer'', (case selectedAnswer a of None \<Rightarrow> JNull | Some n \<Rightarrow> JNum n)),
           (''isAnswered'', JBool (isAnswered a))]"

definition jsonFields :: "QuizState \<Rightarrow> (string \<times> json) list" where
  "jsonFields st =
     [(''currentQuestion'', JNum (Fin (currentQuestion st))),
      (''answers'', JArr (map jsonUserAnswer (answers st))),
      (''timeRemaining'', JNum (timeRemaining st)),
      (''isCompleted'', JBool (isCompleted st))]"

definition jsonQuizState :: "QuizState \<Rightarrow> json" where
  "jsonQuizState st = JObj (jsonFields st @ [(''startTime'', JNum (Fin (startTime st)))])"

text \<open>
  The typed reading of a parsed value, which the source performs without a check when it
  returns \<open>{...parsedState, startTime: ...}\<close> as a \<open>QuizState\<close>.
\<close>

definition asUserAnswer :: "json \<Rightarrow> UserAnswer option" where
  "asUserAnswer v =
     (case v of
        JObj kvs \<Rightarrow>
          (case (map_of kvs ''questionId'', map_of kvs ''selectedAnswer'', map_of kvs ''isAnswered'') of
             (Some (JNum (Fin i)), Some JNull, Some (JBool b)) \<Rightarrow>
               Some \<lparr>questionId = i, selectedAnswer = None, isAnswered = b\<rparr>
           | (Some (JNum (Fin i)), Some (JNum n), Some (JBool b)) \<Rightarrow>
               Some \<lparr>questionId = i, selectedAnswer = Some n, isAnswered = b\<rparr>
           | _ \<Rightarrow> None)
      | _ \<Rightarrow> None)"

fun those_answers :: "json list \<Rightarrow> UserAnswer list option" where
  "those_answers [] = Some []"
| "those_answers (v # vs) =
     (case asUserAnswer v of
        None \<Rightarrow> None
      | Some a \<Rightarrow> (case those_answers vs of None \<Rightarrow> None | Some as \<Rightarrow> Some (a # as)))"

definition asQuizState :: "json \<Rightarrow> QuizState option" where
  "asQuizState v =
     (case v of
        JObj kvs \<Rightarrow>
          (case (map_of kvs ''currentQuestion'', map_of kvs ''answers'',
                 map_of kvs ''timeRemaining'', map_of kvs ''isCompleted'',
                 map_of kvs ''startTime'') of
             (Some (JNum (Fin c)), Some (JArr vs), Some (JNum t), Some (JBool b),
              Some (JNum (Fin s))) \<Rightarrow>
               (case those_answers vs of
                  None \<Rightarrow> None
                | Some as \<Rightarrow>
                    Some \<lparr>currentQuestion = c, answers = as, timeRemaining = t,
                          isCompleted = b, startTime = s\<rparr>)
           | _ \<Rightarrow> None)
      | _ \<Rightarrow> None)"

section \<open>QuizContext: the provider's state\<close>

text \<open>
  The three \<open>useState\<close> cells of \<open>QuizProvider\<close> and the browser's \<open>localStorage\<close>. The
  opaque \<open>User\<close> record is a JSON value. The question bank \<open>questions\<close> never changes and
  is a parameter \<open>qs\<close> of the operations; \<open>now\<close> is the value of \<open>Date.now()\<close>.
\<close>

record Store =
  quizState :: QuizState
  user :: "json option"
  isQuizStarted :: bool
  localStorage :: storage

definition getInitialQuizState :: "Question list \<Rightarrow> int \<Rightarrow> QuizState" where
  "getInitialQuizState qs now =
     \<lparr>currentQuestion = 0,
      answers = map (\<lambda>q. \<lparr>questionId = idQ q, selectedAnswer = None, isAnswered = False\<rparr>) qs,
      timeRemaining = Fin QUIZ_DURATION,
      isCompleted = False,
      startTime = now\<rparr>"

subsection \<open>The initializer of \<open>quizState\<close>\<close>

text \<open>JavaScript truthiness of a property value; \<open>None\<close> is \<open>undefined\<close>.\<close>

fun truthy :: "json option \<Rightarrow> bool" where
  "truthy None = False"
| "truthy (Some JNull) = False"
| "truthy (Some (JBool b)) = b"
| "truthy (Some (JNum n)) = (n \<noteq> Fin 0 \<and> n \<noteq> NaN)"
| "truthy (Some (JStr s)) = (s \<noteq> [])"
| "truthy (Some (JArr vs)) = True"
| "truthy (Some (JObj kvs)) = True"

text \<open>
  \<open>x.length\<close> for the value \<open>x\<close> of a property: reading it from \<open>undefined\<close> or \<open>null\<close>
  throws a TypeError; a boolean or a number has no such property; a string has its number
  of characters, an array its number of elements, an object its own property of that name.
\<close>

fun member_length :: "json option \<Rightarrow> error + json option" where
  "member_length None = Inl TypeError"
| "member_length (Some JNull) = Inl TypeError"
| "member_length (Some (JBool b)) = Inr None"
| "member_length (Some (JNum n)) = Inr None"
| "member_length (Some (JStr s)) = Inr (Some (JNum (Fin (int (length s)))))"
| "member_length (Some (JArr vs)) = Inr (Some (JNum (Fin (int (length vs)))))"
| "member_length (Some (JObj kvs)) = Inr (map_of kvs ''length'')"

text \<open>\<open>parsedState.startTime || Date.now()\<close>\<close>

definition startTime_or_now :: "json option \<Rightarrow> int \<Rightarrow> json" where
  "startTime_or_now t now = (if truthy t then the t else JNum (Fin now))"

text \<open>
  The body of the \<open>try\<close> block: \<open>Inl\<close> is a throw, \<open>Inr (Some v)\<close> is \<open>return v\<close>, and
  \<open>Inr None\<close> leaves the block without returning. \<open>parsedState.answers\<close> throws on
  \<open>null\<close>, is \<open>undefined\<close> on a boolean, a number, a string and an array (so that
  \<open>.length\<close> throws), and is the property's value on an object. The object spread followed
  by \<open>startTime:\<close> overwrites the property in place or appends it.
\<close>

definition try_adopt :: "Question list \<Rightarrow> int \<Rightarrow> stored \<Rightarrow> error + json option" where
  "try_adopt qs now saved =
     (case JSON_parse saved of
        Inl e \<Rightarrow> Inl e
      | Inr parsedState \<Rightarrow>
          (case parsedState of
             JObj kvs \<Rightarrow>
               (case member_length (map_of kvs ''answers'') of
                  Inl e \<Rightarrow> Inl e
                | Inr n \<Rightarrow>
                    if n = Some (JNum (Fin (int (length qs))))
                    then Inr (Some (JObj (AList.update ''startTime''
                                   (startTime_or_now (map_of kvs ''startTime'') now) kvs)))
                    else Inr None)
           | _ \<Rightarrow> Inl TypeError))"

text \<open>
  The initializer passed to \<open>useState\<close>. The \<open>catch\<close> swallows every throw of the \<open>try\<close>
  block, and the function then reaches the fallback \<open>getInitialQuizState(questions)\<close>.
\<close>

definition initialQuizState :: "Question list \<Rightarrow> int \<Rightarrow> storage \<Rightarrow> error + json" where
  "initialQuizState qs now ls =
     (case ls STORAGE_KEY of
        None \<Rightarrow> Inr (jsonQuizState (getInitialQuizState qs now))
      | Some saved \<Rightarrow>
          if saved = Empty then Inr (jsonQuizState (getInitialQuizState qs now))
          else (case try_adopt qs now saved of
                  Inr (Some v) \<Rightarrow> Inr v
                | Inr None \<Rightarrow> Inr (jsonQuizState (getInitialQuizState qs now))
                | Inl e \<Rightarrow> Inr (jsonQuizState (getInitialQuizState qs now))))"

subsection \<open>The effects\<close>

text \<open>
  The save effect, which React runs after a render in which \<open>quizState\<close> or
  \<open>isQuizStarted\<close> was replaced; it reads the state of that render. Each operation below
  ends with it exactly when it calls one of the two setters. When one handler makes several
  calls, React runs the effect once, after the last of them; the storage is then the same as
  with a run after each call, because the key is written from the last state that is started
  and not completed, and an operation that ends such a phase (\<open>submitQuiz\<close>, \<open>resetQuiz\<close>)
  removes the key.
\<close>

definition save_effect :: "Store \<Rightarrow> Store" where
  "save_effect s =
     (if isQuizStarted s \<and> \<not> isCompleted (quizState s)
      then s\<lparr>localStorage :=
               (localStorage s)(STORAGE_KEY \<mapsto> JSON_stringify (jsonQuizState (quizState s)))\<rparr>
      else s)"

text \<open>
  The mount effect: the user record is parsed outside any \<open>try\<close>, so a malformed value
  throws and the started flag is not read. The render that follows the two setters runs
  the save effect.
\<close>

definition load_effect :: "Store \<Rightarrow> error + Store" where
  "load_effect s =
     (let started = (localStorage s START_STORAGE_KEY = Some (Json (JBool True)))
      in case localStorage s USER_STORAGE_KEY of
           None \<Rightarrow> Inr (save_effect (s\<lparr>isQuizStarted := isQuizStarted s \<or> started\<rparr>))
         | Some savedUser \<Rightarrow>
             if savedUser = Empty
             then Inr (save_effect (s\<lparr>isQuizStarted := isQuizStarted s \<or> started\<rparr>))
             else (case JSON_parse savedUser of
                     Inl e \<Rightarrow> Inl e
                   | Inr u \<Rightarrow>
                       Inr (save_effect
                              (s\<lparr>user := Some u,
                                 isQuizStarted := isQuizStarted s \<or> started\<rparr>))))"

subsection \<open>The operations of the context\<close>

text \<open>
  The functions of a context value close over the \<open>quizState\<close> of the render that made
  them, while a state updater \<open>prev => ...\<close> receives the state as it is when the call is
  applied. The two differ when a handler makes a second call before the next render, or
  when a caller keeps a function of an earlier render. \<open>startQuiz\<close>, \<open>skipQuestion\<close> and
  \<open>updateTimer\<close> test the closure's \<open>quizState\<close> and update \<open>prev\<close>: they take the
  closure's state as the argument \<open>shown\<close> and the current state as \<open>s\<close>. The other
  operations read \<open>prev\<close> only. \<open>calculateScore\<close> and \<open>getUnansweredQuestions\<close> only read,
  and are given the state of the render that calls them.
\<close>

definition setUser :: "json \<Rightarrow> Store \<Rightarrow> Store" where
  "setUser u s =
     s\<lparr>user := Some u,
       localStorage := (localStorage s)(USER_STORAGE_KEY \<mapsto> JSON_stringify u)\<rparr>"

text \<open>
  When \<open>startQuiz\<close> does not replace the quiz state, the save effect runs only if
  \<open>setIsQuizStarted(true)\<close> changed the flag.
\<close>

definition startQuiz :: "Question list \<Rightarrow> int \<Rightarrow> QuizState \<Rightarrow> Store \<Rightarrow> Store" where
  "startQuiz qs now shown s =
     (let s1 = s\<lparr>isQuizStarted := True,
                 localStorage := (localStorage s)(START_STORAGE_KEY \<mapsto> Json (JBool True))\<rparr>
      in if \<not> isCompleted shown
         then save_effect
                (s1\<lparr>quizState := (quizState s)
                      \<lparr>answers := answers (getInitialQuizState qs now),
                       startTime := now,
                       timeRemaining := Fin QUIZ_DURATION\<rparr>\<rparr>)
         else if isQuizStarted s then s1 else save_effect s1)"

definition updateAnswer :: "int \<Rightarrow> number option \<Rightarrow> Store \<Rightarrow> Store" where
  "updateAnswer qid answer s =
     save_effect
       (s\<lparr>quizState := (quizState s)
            \<lparr>answers :=
               map (\<lambda>a. if questionId a = qid
                        then a\<lparr>selectedAnswer := answer, isAnswered := (answer \<noteq> None)\<rparr>
                        else a)
                   (answers (quizState s))\<rparr>\<rparr>)"

definition goToQuestion :: "Question list \<Rightarrow> int \<Rightarrow> Store \<Rightarrow> Store" where
  "goToQuestion qs questionIndex s =
     (if questionIndex \<ge> 0 \<and> questionIndex < int (length qs)
      then save_effect (s\<lparr>quizState := (quizState s)\<lparr>currentQuestion := questionIndex\<rparr>\<rparr>)
      else s)"

definition nextQuestion :: "Question list \<Rightarrow> Store \<Rightarrow> Store" where
  "nextQuestion qs s =
     save_effect
       (s\<lparr>quizState := (quizState s)
            \<lparr>currentQuestion :=
               min (currentQuestion (quizState s) + 1) (int (length qs) - 1)\<rparr>\<rparr>)"

definition previousQuestion :: "Store \<Rightarrow> Store" where
  "previousQuestion s =
     save_effect
       (s\<lparr>quizState := (quizState s)
            \<lparr>currentQuestion := max (currentQuestion (quizState s) - 1) 0\<rparr>\<rparr>)"

definition skipQuestion :: "Question list \<Rightarrow> QuizState \<Rightarrow> Store \<Rightarrow> Store" where
  "skipQuestion qs shown s =
     (if currentQuestion shown < int (length qs) - 1 then nextQuestion qs s else s)"

definition submitQuiz :: "Store \<Rightarrow> Store" where
  "submitQuiz s =
     save_effect
       (s\<lparr>quizState := (quizState s)\<lparr>isCompleted := True\<rparr>,
          localStorage :=
            ((localStorage s)(COMPLETED_KEY \<mapsto> Json (JBool True)))(STORAGE_KEY := None)\<rparr>)"

definition resetQuiz :: "Question list \<Rightarrow> int \<Rightarrow> Store \<Rightarrow> Store" where
  "resetQuiz qs now s =
     save_effect
       (s\<lparr>quizState := getInitialQuizState qs now,
          isQuizStarted := False,
          localStorage :=
            (localStorage s)(STORAGE_KEY := None, START_STORAGE_KEY := None,
                             COMPLETED_KEY := None, USER_STORAGE_KEY := None),
          user := None\<rparr>)"

definition updateTimer :: "QuizState \<Rightarrow> number \<Rightarrow> Store \<Rightarrow> Store" where
  "updateTimer shown t s =
     (if \<not> isCompleted shown
      then save_effect (s\<lparr>quizState := (quizState s)\<lparr>timeRemaining := t\<rparr>\<rparr>)
      else s)"

definition getUnansweredQuestions :: "Store \<Rightarrow> nat list" where
  "getUnansweredQuestions s =
     map snd (filter (\<lambda>(answer, index). \<not> isAnswered answer)
                     (zip (answers (quizState s)) [0..<length (answers (quizState s))]))"

text \<open>
  \<open>calculateScore\<close>: the \<open>forEach\<close> loop with its counter. \<open>questions.find\<close> returns the
  first question with the id, and an object is always truthy.
\<close>

definition score_step :: "Question list \<Rightarrow> nat \<Rightarrow> UserAnswer \<Rightarrow> nat" where
  "score_step qs correctCount userAnswer =
     (case find (\<lambda>q. idQ q = questionId userAnswer) qs of
        None \<Rightarrow> correctCount
      | Some questionData \<Rightarrow>
          if selectedAnswer userAnswer = Some (Fin (correctAnswer questionData))
          then correctCount + 1 else correctCount)"

definition calculateScore :: "Question list \<Rightarrow> Store \<Rightarrow> nat" where
  "calculateScore qs s =
     (if \<not> isCompleted (quizState s) then 0
      else foldl (score_step qs) 0 (answers (quizState s)))"

subsection \<open>Sequences of calls\<close>

datatype action =
    SetUser json
  | StartQuiz
  | UpdateAnswer int "number option"
  | GoToQuestion int
  | NextQuestion
  | PreviousQuestion
  | SkipQuestion
  | SubmitQuiz
  | ResetQuiz
  | UpdateTimer number

text \<open>
  A call is an operation together with the \<open>quizState\<close> its function closed over and the
  clock reading at which it runs. A run applies calls one after the other; the closure of
  a call is any state, so that calls of one handler and calls through functions of earlier
  renders are runs too.
\<close>

fun dispatch :: "Question list \<Rightarrow> Store \<Rightarrow> QuizState \<times> int \<times> action \<Rightarrow> Store" where
  "dispatch qs s (shown, now, SetUser u) = setUser u s"
| "dispatch qs s (shown, now, StartQuiz) = startQuiz qs now shown s"
| "dispatch qs s (shown, now, UpdateAnswer qid answer) = updateAnswer qid answer s"
| "dispatch qs s (shown, now, GoToQuestion i) = goToQuestion qs i s"
| "dispatch qs s (shown, now, NextQuestion) = nextQuestion qs s"
| "dispatch qs s (shown, now, PreviousQuestion) = previousQuestion s"
| "dispatch qs s (shown, now, SkipQuestion) = skipQuestion qs shown s"
| "dispatch qs s (shown, now, SubmitQuiz) = submitQuiz s"
| "dispatch qs s (shown, now, ResetQuiz) = resetQuiz qs now s"
| "dispatch qs s (shown, now, UpdateTimer t) = updateTimer shown t s"

definition run ::
  "Question list \<Rightarrow> Store \<Rightarrow> (QuizState \<times> int \<times> action) list \<Rightarrow> Store" where
  "run qs s calls = foldl (dispatch qs) s calls"


section \<open>Question.tsx: resolving and highlighting a selection\<close>

text \<open>
  \<open>quizState.answers.find(a => a.questionId === question.id)?.selectedAnswer\<close>:
  \<open>undefined\<close> when there is no record, else the record's value.
\<close>

definition selectedOriginalIndex :: "Store \<Rightarrow> Question \<Rightarrow> number option" where
  "selectedOriginalIndex s q =
     (case find (\<lambda>a. questionId a = idQ q) (answers (quizState s)) of
        None \<Rightarrow> None
      | Some currentAnswer \<Rightarrow> selectedAnswer currentAnswer)"

text \<open>
  \<open>handleAnswerSelect\<close>: reading \<open>.originalIndex\<close> of \<open>undefined\<close>, for a display index
  outside the array, throws a TypeError.
\<close>

definition handleAnswerSelect ::
  "Question \<Rightarrow> ShuffledOption list \<Rightarrow> nat \<Rightarrow> Store \<Rightarrow> error + Store" where
  "handleAnswerSelect q shuffled selectedShuffledIndex s =
     (if selectedShuffledIndex < length shuffled
      then (let originalIndexToSave = originalIndex (shuffled ! selectedShuffledIndex)
            in Inr (updateAnswer (idQ q) (Some (Fin originalIndexToSave)) s))
      else Inl TypeError)"

definition isSelected :: "number option \<Rightarrow> ShuffledOption \<Rightarrow> bool" where
  "isSelected selected shuffledOption = (selected = Some (Fin (originalIndex shuffledOption)))"

section \<open>Properties stated over the model\<close>


section \<open>Concrete data\<close>

text \<open>A question with four options, used to run the model.\<close>

definition example_question :: Question where
  "example_question =
     \<lparr>idQ = 2, question = ''Q2'', options = [''a'', ''b'', ''c'', ''d''], correctAnswer = 2\<rparr>"

text \<open>
  The bank of the specification's scenario: ids 1, 2, 3, four options each, correct
  answers 0, 2, 1; and a provider state over it.
\<close>

definition example_questions :: "Question list" where
  "example_questions =
     [\<lparr>idQ = 1, question = ''Q1'', options = [''a'', ''b'', ''c'', ''d''], correctAnswer = 0\<rparr>,
      \<lparr>idQ = 2, question = ''Q2'', options = [''a'', ''b'', ''c'', ''d''], correctAnswer = 2\<rparr>,
      \<lparr>idQ = 3, question = ''Q3'', options = [''a'', ''b'', ''c'', ''d''], correctAnswer = 1\<rparr>]"

definition example_store :: Store where
  "example_store =
     \<lparr>quizState = getInitialQuizState example_questions 1000,
      user = None,
      isQuizStarted = True,
      localStorage = Map.empty\<rparr>"

text \<open>
  The reading of ``a question with the record's id exists in the bank and the selected
  answer equals that question's correct answer'', used to state what \<open>calculateScore\<close>
  counts.
\<close>

definition counted_correct :: "Question list \<Rightarrow> UserAnswer \<Rightarrow> bool" where
  "counted_correct qs a =
     (\<exists>q \<in> set qs. idQ q = questionId a \<and> selectedAnswer a = Some (Fin (correctAnswer q)))"

text \<open>The scenario's answers: question 1 gets 0, question 2 gets 2, question 3 gets 3.\<close>

definition example_answered :: Store where
  "example_answered =
     updateAnswer 3 (Some (Fin 3))
       (updateAnswer 2 (Some (Fin 2)) (updateAnswer 1 (Some (Fin 0)) example_store))"


text \<open>
  A quiz state whose stored numbers are all finite; only such a state is written by
  \<open>JSON.stringify\<close> as it is.
\<close>

definition finite_number :: "number \<Rightarrow> bool" where
  "finite_number n = (case n of Fin i \<Rightarrow> True | _ \<Rightarrow> False)"

definition finite_numbers :: "QuizState \<Rightarrow> bool" where
  "finite_numbers st =
     (finite_number (timeRemaining st)
      \<and> list_all (\<lambda>a. case selectedAnswer a of None \<Rightarrow> True | Some n \<Rightarrow> finite_number n)
                  (answers st))"

text \<open>A call whose number argument, if it has one, is finite.\<close>

fun finite_call :: "QuizState \<times> int \<times> action \<Rightarrow> bool" where
  "finite_call (shown, now, UpdateTimer t) = finite_number t"
| "finite_call (shown, now, UpdateAnswer qid answer) =
     (case answer of None \<Rightarrow> True | Some n \<Rightarrow> finite_number n)"
| "finite_call (shown, now, a) = True"

section \<open>The shuffle is a permutation\<close>

lemma draw_in_range:
  assumes "0 \<le> r" and "r < 1"
  shows "nat \<lfloor>r * real (i + 1)\<rfloor> \<le> i"
proof -
  have "r * real (i + 1) < real (i + 1)"
    using assms by simp
  then have "\<lfloor>r * real (i + 1)\<rfloor> < int (i + 1)"
    by (simp add: floor_less_iff)
  then show ?thesis by linarith
qed

lemma mset_swap_list:
  assumes "i < length xs" and "j < length xs"
  shows "mset (swap xs i j) = mset xs"
  unfolding swap_def using mset_swap [OF assms(2) assms(1)] .

lemma length_swap: "length (swap xs i j) = length xs"
  by (simp add: swap_def)

lemma mset_shuffle_loop:
  assumes "random_draws rnd" and "k < length xs \<or> k = 0"
  shows "mset (shuffle_loop rnd k xs) = mset xs"
  using assms(2)
proof (induction k arbitrary: xs)
  case 0
  show ?case by simp
next
  case (Suc k)
  define j where "j = nat \<lfloor>rnd (Suc k) * real (Suc k + 1)\<rfloor>"
  have i: "Suc k < length xs" using Suc.prems by simp
  have "j \<le> Suc k"
    unfolding j_def using assms(1) draw_in_range [of "rnd (Suc k)" "Suc k"]
    by (simp add: random_draws_def)
  with i have j: "j < length xs" by simp
  have "mset (shuffle_loop rnd k (swap xs (Suc k) j)) = mset (swap xs (Suc k) j)"
    using i by (intro Suc.IH) (simp add: length_swap)
  also have "\<dots> = mset xs"
    by (rule mset_swap_list [OF i j])
  finally show ?case by (simp add: j_def Let_def)
qed

lemma mset_shuffleArray:
  "random_draws rnd \<Longrightarrow> mset (shuffleArray rnd xs) = mset xs"
  unfolding shuffleArray_def
  by (rule mset_shuffle_loop) (auto simp: less_Suc_eq_le)

lemma originalIndex_optionsWithIndex:
  "map originalIndex (optionsWithIndex q) = map int [0..<length (options q)]"
proof -
  have "map originalIndex (optionsWithIndex q)
      = map (int \<circ> fst) (enumerate 0 (options q))"
    by (simp add: optionsWithIndex_def split_def comp_def)
  also have "\<dots> = map int (map fst (enumerate 0 (options q)))"
    by (simp only: map_map)
  also have "\<dots> = map int [0..<length (options q)]"
    by (simp only: map_fst_enumerate) simp
  finally show ?thesis .
qed

lemma mset_shuffledOptions:
  assumes "random_draws rnd"
  shows "mset (map originalIndex (shuffledOptions rnd q))
       = mset (map int [0..<length (options q)])"
proof -
  have "mset (map originalIndex (shuffledOptions rnd q))
      = image_mset originalIndex (mset (shuffleArray rnd (optionsWithIndex q)))"
    by (simp add: shuffledOptions_def)
  also have "\<dots> = image_mset originalIndex (mset (optionsWithIndex q))"
    by (simp add: mset_shuffleArray [OF assms])
  also have "\<dots> = mset (map originalIndex (optionsWithIndex q))"
    by simp
  finally show ?thesis
    by (simp only: originalIndex_optionsWithIndex)
qed

lemma length_shuffledOptions:
  assumes "random_draws rnd"
  shows "length (shuffledOptions rnd q) = length (options q)"
  using mset_eq_length [OF mset_shuffledOptions [OF assms, of q]] by simp

lemma distinct_shuffledOptions:
  assumes "random_draws rnd"
  shows "distinct (map originalIndex (shuffledOptions rnd q))"
proof -
  have "distinct (map int [0..<length (options q)])"
    by (simp add: distinct_map)
  then show ?thesis
    using mset_eq_imp_distinct_iff [OF mset_shuffledOptions [OF assms, of q]] by simp
qed

lemma random_draws_half: "random_draws (\<lambda>i. 1 / 2)"
  by (simp add: random_draws_def)

lemma unique_position:
  assumes "distinct (map f xs)" and "v \<in> f ` set xs"
  shows "\<exists>!k. k < length xs \<and> f (xs ! k) = v"
proof -
  from assms(2) obtain k where k: "k < length xs" "f (xs ! k) = v"
    by (auto simp: in_set_conv_nth)
  show ?thesis
  proof (rule ex1I [of _ k])
    show "k < length xs \<and> f (xs ! k) = v" using k by simp
  next
    fix k' assume k': "k' < length xs \<and> f (xs ! k') = v"
    then have "map f xs ! k' = map f xs ! k" using k by simp
    then show "k' = k"
      using assms(1) k k' by (simp add: nth_eq_iff_index_eq del: nth_map)
  qed
qed

lemma set_originalIndex_shuffledOptions:
  assumes "random_draws rnd"
  shows "originalIndex ` set (shuffledOptions rnd q) = int ` {0..<length (options q)}"
proof -
  have "set (map originalIndex (shuffledOptions rnd q)) = set (map int [0..<length (options q)])"
    by (rule mset_eq_setD [OF mset_shuffledOptions [OF assms]])
  then show ?thesis by simp
qed

lemma in_range_iff: "(o' \<in> int ` {0..<n}) = (0 \<le> o' \<and> o' < int n)"
proof
  assume "o' \<in> int ` {0..<n}"
  then show "0 \<le> o' \<and> o' < int n" by auto
next
  assume "0 \<le> o' \<and> o' < int n"
  then have "nat o' \<in> {0..<n}" and "o' = int (nat o')" by auto
  then show "o' \<in> int ` {0..<n}" by (rule rev_image_eqI)
qed

lemma mset_shuffledOptions_values:
  "random_draws rnd \<Longrightarrow> mset (shuffledOptions rnd q) = mset (optionsWithIndex q)"
  by (simp add: shuffledOptions_def mset_shuffleArray)

section \<open>C1: the display order is a permutation of the original indices\<close>

text \<open>
  Claim C1. For a question with \<open>n\<close> options and any draws of \<open>Math.random()\<close>, each
  in \<open>[0, 1)\<close>, the display order built by \<open>shuffleArray\<close> from the pairs
  (original index, value) has length \<open>n\<close>, holds the same pairs as the bank order, and its
  original indices are a permutation of \<open>[0, n)\<close>: they are distinct and every index
  below \<open>n\<close> sits at exactly one display position.
\<close>

theorem shuffle_is_permutation:
  assumes "random_draws rnd"
  shows "length (shuffledOptions rnd q) = length (options q)
       \<and> mset (shuffledOptions rnd q) = mset (optionsWithIndex q)
       \<and> mset (map originalIndex (shuffledOptions rnd q)) = mset (map int [0..<length (options q)])
       \<and> distinct (map originalIndex (shuffledOptions rnd q))
       \<and> (\<forall>i. 0 \<le> i \<and> i < int (length (options q)) \<longrightarrow>
            (\<exists>!k. k < length (shuffledOptions rnd q)
                 \<and> originalIndex (shuffledOptions rnd q ! k) = i))"
proof -
  have "\<exists>!k. k < length (shuffledOptions rnd q) \<and> originalIndex (shuffledOptions rnd q ! k) = i"
    if "0 \<le> i \<and> i < int (length (options q))" for i
  proof (rule unique_position [OF distinct_shuffledOptions [OF assms]])
    show "i \<in> originalIndex ` set (shuffledOptions rnd q)"
      using that by (simp only: set_originalIndex_shuffledOptions [OF assms] in_range_iff)
  qed
  then show ?thesis
    using length_shuffledOptions [OF assms] mset_shuffledOptions [OF assms]
      distinct_shuffledOptions [OF assms] mset_shuffledOptions_values [OF assms]
    by blast
qed

theorem shuffle_is_permutation_witness:
  "random_draws (\<lambda>i. 1 / 2)
   \<and> map originalIndex (shuffledOptions (\<lambda>i. 1 / 2) example_question) = [0, 3, 1, 2]
   \<and> length (shuffledOptions (\<lambda>i. 1 / 2) example_question) = length (options example_question)
   \<and> mset (shuffledOptions (\<lambda>i. 1 / 2) example_question) = mset (optionsWithIndex example_question)
   \<and> mset (map originalIndex (shuffledOptions (\<lambda>i. 1 / 2) example_question))
       = mset (map int [0..<length (options example_question)])
   \<and> distinct (map originalIndex (shuffledOptions (\<lambda>i. 1 / 2) example_question))
   \<and> (\<exists>!k. k < length (shuffledOptions (\<lambda>i. 1 / 2) example_question)
          \<and> originalIndex (shuffledOptions (\<lambda>i. 1 / 2) example_question ! k) = 3)"
proof -
  have h: "random_draws (\<lambda>i. 1 / 2)" by (rule random_draws_half)
  have e: "map originalIndex (shuffledOptions (\<lambda>i. 1 / 2) example_question) = [0, 3, 1, 2]"
    by (simp add: shuffledOptions_def shuffleArray_def optionsWithIndex_def
        example_question_def swap_def enumerate_eq_zip numeral_eq_Suc upt_rec)
  have r: "0 \<le> (3::int) \<and> 3 < int (length (options example_question))"
    by (simp add: example_question_def)
  note t = shuffle_is_permutation [OF h, of example_question]
  note t1 = t [THEN conjunct1]
  note t2 = t [THEN conjunct2, THEN conjunct1]
  note t3 = t [THEN conjunct2, THEN conjunct2, THEN conjunct1]
  note t4 = t [THEN conjunct2, THEN conjunct2, THEN conjunct2, THEN conjunct1]
  note t5 = t [THEN conjunct2, THEN conjunct2, THEN conjunct2, THEN conjunct2, rule_format, OF r]
  show ?thesis
    by (rule conjI [OF h conjI [OF e conjI [OF t1 conjI [OF t2 conjI [OF t3 conjI [OF t4 t5]]]]]])
qed

lemma quizState_save_effect: "quizState (save_effect s) = quizState s"
  by (simp add: save_effect_def)

lemma quizState_updateAnswer:
  "quizState (updateAnswer qid answer s) =
     (quizState s)\<lparr>answers :=
        map (\<lambda>a. if questionId a = qid
                 then a\<lparr>selectedAnswer := answer, isAnswered := (answer \<noteq> None)\<rparr>
                 else a)
            (answers (quizState s))\<rparr>"
  by (simp add: updateAnswer_def quizState_save_effect)

lemma find_updated:
  "find (\<lambda>a. questionId a = qid)
        (map (\<lambda>a. if questionId a = qid then a\<lparr>selectedAnswer := v, isAnswered := b\<rparr> else a) as)
   = map_option (\<lambda>a. a\<lparr>selectedAnswer := v, isAnswered := b\<rparr>) (find (\<lambda>a. questionId a = qid) as)"
  by (induction as) simp_all

lemma selectedOriginalIndex_updateAnswer:
  assumes "qid \<in> questionId ` set (answers (quizState s))" and "idQ q = qid"
  shows "selectedOriginalIndex (updateAnswer qid answer s) q = answer"
proof -
  from assms(1) obtain a where "find (\<lambda>a. questionId a = qid) (answers (quizState s)) = Some a"
    by (cases "find (\<lambda>a. questionId a = qid) (answers (quizState s))")
       (auto simp: find_None_iff)
  then show ?thesis
    by (simp add: selectedOriginalIndex_def quizState_updateAnswer find_updated assms(2))
qed

section \<open>C2: selections are stored and highlighted by original index\<close>

text \<open>
  Claim C2. Activating display position \<open>k\<close> hands \<open>shuffledOptions[k].originalIndex\<close> to
  \<open>updateAnswer\<close>, and, when the question has a record, that index is what the next render
  reads back. If the index \<open>i\<close> is stored for the question then, for every permutation the
  shuffle can generate, a display position is flagged selected exactly when its original
  index is \<open>i\<close>; there is exactly one such position when \<open>i\<close> is an index of the option
  list, and none (and no error) when it is not, when the stored number is not finite, or
  when nothing is stored.
\<close>

theorem selection_by_original_index:
  assumes "random_draws rnd"
  shows "(\<forall>k < length (shuffledOptions rnd q).
            handleAnswerSelect q (shuffledOptions rnd q) k s
              = Inr (updateAnswer (idQ q) (Some (Fin (originalIndex (shuffledOptions rnd q ! k)))) s)
            \<and> (idQ q \<in> questionId ` set (answers (quizState s)) \<longrightarrow>
                 selectedOriginalIndex
                   (updateAnswer (idQ q) (Some (Fin (originalIndex (shuffledOptions rnd q ! k)))) s) q
                 = Some (Fin (originalIndex (shuffledOptions rnd q ! k)))))
       \<and> (selectedOriginalIndex s q = Some (Fin i) \<longrightarrow>
            (\<forall>k < length (shuffledOptions rnd q).
               isSelected (selectedOriginalIndex s q) (shuffledOptions rnd q ! k)
                 \<longleftrightarrow> originalIndex (shuffledOptions rnd q ! k) = i)
            \<and> (0 \<le> i \<and> i < int (length (options q)) \<longrightarrow>
                 (\<exists>!k. k < length (shuffledOptions rnd q)
                      \<and> isSelected (selectedOriginalIndex s q) (shuffledOptions rnd q ! k)))
            \<and> (\<not> (0 \<le> i \<and> i < int (length (options q))) \<longrightarrow>
                 (\<forall>k < length (shuffledOptions rnd q).
                    \<not> isSelected (selectedOriginalIndex s q) (shuffledOptions rnd q ! k))))
       \<and> (selectedOriginalIndex s q = None \<longrightarrow>
            (\<forall>k < length (shuffledOptions rnd q).
               \<not> isSelected (selectedOriginalIndex s q) (shuffledOptions rnd q ! k)))
       \<and> (\<not> finite_number n \<and> selectedOriginalIndex s q = Some n \<longrightarrow>
            (\<forall>k < length (shuffledOptions rnd q).
               \<not> isSelected (selectedOriginalIndex s q) (shuffledOptions rnd q ! k)))"
proof -
  let ?sh = "shuffledOptions rnd q"
  have sel: "isSelected (Some (Fin i)) x \<longleftrightarrow> originalIndex x = i" for x
    by (auto simp: isSelected_def)
  have one: "\<exists>!k. k < length ?sh \<and> isSelected (Some (Fin i)) (?sh ! k)"
    if "0 \<le> i \<and> i < int (length (options q))"
    unfolding sel
  proof (rule unique_position [OF distinct_shuffledOptions [OF assms]])
    show "i \<in> originalIndex ` set ?sh"
      using that by (simp only: set_originalIndex_shuffledOptions [OF assms] in_range_iff)
  qed
  have none: "\<not> isSelected (Some (Fin i)) (?sh ! k)"
    if "\<not> (0 \<le> i \<and> i < int (length (options q)))" and "k < length ?sh" for k
  proof
    assume "isSelected (Some (Fin i)) (?sh ! k)"
    then have "i \<in> originalIndex ` set ?sh"
      using that(2) unfolding sel by (metis image_eqI nth_mem)
    then show False
      using that(1) by (simp only: set_originalIndex_shuffledOptions [OF assms] in_range_iff)
  qed
  have act: "handleAnswerSelect q ?sh k s
               = Inr (updateAnswer (idQ q) (Some (Fin (originalIndex (?sh ! k)))) s)"
    if "k < length ?sh" for k
    using that by (simp add: handleAnswerSelect_def)
  have nul: "\<not> isSelected None x" for x
    by (simp add: isSelected_def)
  have stored: "selectedOriginalIndex (updateAnswer (idQ q) (Some (Fin v)) s) q = Some (Fin v)"
    if "idQ q \<in> questionId ` set (answers (quizState s))" for v
    using that by (rule selectedOriginalIndex_updateAnswer) simp
  have A: "\<forall>k < length ?sh.
            handleAnswerSelect q ?sh k s
              = Inr (updateAnswer (idQ q) (Some (Fin (originalIndex (?sh ! k)))) s)
            \<and> (idQ q \<in> questionId ` set (answers (quizState s)) \<longrightarrow>
                 selectedOriginalIndex (updateAnswer (idQ q) (Some (Fin (originalIndex (?sh ! k)))) s) q
                 = Some (Fin (originalIndex (?sh ! k))))"
    using act stored by blast
  have B: "selectedOriginalIndex s q = Some (Fin i) \<longrightarrow>
            (\<forall>k < length ?sh. isSelected (selectedOriginalIndex s q) (?sh ! k)
                 \<longleftrightarrow> originalIndex (?sh ! k) = i)
            \<and> (0 \<le> i \<and> i < int (length (options q)) \<longrightarrow>
                 (\<exists>!k. k < length ?sh \<and> isSelected (selectedOriginalIndex s q) (?sh ! k)))
            \<and> (\<not> (0 \<le> i \<and> i < int (length (options q))) \<longrightarrow>
                 (\<forall>k < length ?sh. \<not> isSelected (selectedOriginalIndex s q) (?sh ! k)))"
  proof
    assume "selectedOriginalIndex s q = Some (Fin i)"
    then show "(\<forall>k < length ?sh. isSelected (selectedOriginalIndex s q) (?sh ! k)
                 \<longleftrightarrow> originalIndex (?sh ! k) = i)
            \<and> (0 \<le> i \<and> i < int (length (options q)) \<longrightarrow>
                 (\<exists>!k. k < length ?sh \<and> isSelected (selectedOriginalIndex s q) (?sh ! k)))
            \<and> (\<not> (0 \<le> i \<and> i < int (length (options q))) \<longrightarrow>
                 (\<forall>k < length ?sh. \<not> isSelected (selectedOriginalIndex s q) (?sh ! k)))"
      using sel one none by simp
  qed
  have C: "selectedOriginalIndex s q = None \<longrightarrow>
            (\<forall>k < length ?sh. \<not> isSelected (selectedOriginalIndex s q) (?sh ! k))"
    using nul by simp
  have D: "\<not> finite_number n \<and> selectedOriginalIndex s q = Some n \<longrightarrow>
            (\<forall>k < length ?sh. \<not> isSelected (selectedOriginalIndex s q) (?sh ! k))"
    by (auto simp: isSelected_def finite_number_def)
  show ?thesis
    using A B C D by (intro conjI)
qed

theorem selection_by_original_index_witness:
  "random_draws (\<lambda>i. 1 / 2)
   \<and> handleAnswerSelect example_question (shuffledOptions (\<lambda>i. 1 / 2) example_question) 1
         example_store
       = Inr (updateAnswer 2 (Some (Fin 3)) example_store)
   \<and> selectedOriginalIndex (updateAnswer 2 (Some (Fin 3)) example_store) example_question
       = Some (Fin 3)
   \<and> map (isSelected (Some (Fin 3))) (shuffledOptions (\<lambda>i. 1 / 2) example_question)
       = [False, True, False, False]
   \<and> map (isSelected (Some (Fin 3))) (shuffledOptions (\<lambda>i. 0) example_question)
       = [False, False, True, False]
   \<and> (\<exists>!k. k < length (shuffledOptions (\<lambda>i. 1 / 2) example_question)
          \<and> isSelected (selectedOriginalIndex (updateAnswer 2 (Some (Fin 3)) example_store)
                           example_question)
                        (shuffledOptions (\<lambda>i. 1 / 2) example_question ! k))
   \<and> \<not> (\<exists>k. k < length (shuffledOptions (\<lambda>i. 1 / 2) example_question)
          \<and> isSelected (selectedOriginalIndex (updateAnswer 2 (Some (Fin 4)) example_store)
                           example_question)
                        (shuffledOptions (\<lambda>i. 1 / 2) example_question ! k))"
proof -
  have h: "random_draws (\<lambda>i. 1 / 2)" by (rule random_draws_half)
  note ev = shuffledOptions_def shuffleArray_def optionsWithIndex_def
        example_question_def swap_def enumerate_eq_zip numeral_eq_Suc upt_rec
  have l: "length (options example_question) = 4" by (simp add: example_question_def)
  have e: "map originalIndex (shuffledOptions (\<lambda>i. 1 / 2) example_question) = [0, 3, 1, 2]"
    by (simp add: ev)
  have e0: "map (isSelected (Some (Fin 3))) (shuffledOptions (\<lambda>i. 0) example_question)
       = [False, False, True, False]"
    by (simp add: ev isSelected_def)
  have e1: "map (isSelected (Some (Fin 3))) (shuffledOptions (\<lambda>i. 1 / 2) example_question)
       = [False, True, False, False]"
    by (simp add: ev isSelected_def)
  have k: "(1::nat) < length (shuffledOptions (\<lambda>i. 1 / 2) example_question)"
    using arg_cong [OF e, of length] by simp
  have v: "originalIndex (shuffledOptions (\<lambda>i. 1 / 2) example_question ! 1) = 3"
    using arg_cong [OF e, of "\<lambda>xs. xs ! 1"] k by simp
  have i: "idQ example_question = 2" by (simp add: example_question_def)
  have s: "selectedOriginalIndex (updateAnswer 2 (Some (Fin j)) example_store) example_question
             = Some (Fin j)" for j
    by (simp add: selectedOriginalIndex_def quizState_updateAnswer example_store_def
        getInitialQuizState_def example_questions_def example_question_def)
  have r3: "0 \<le> (3::int) \<and> 3 < int (length (options example_question))"
    by (simp add: l)
  have r4: "\<not> (0 \<le> (4::int) \<and> 4 < int (length (options example_question)))"
    by (simp add: l)
  have a: "handleAnswerSelect example_question (shuffledOptions (\<lambda>i. 1 / 2) example_question) 1
             example_store
       = Inr (updateAnswer 2 (Some (Fin 3)) example_store)"
    using selection_by_original_index [OF h, of example_question example_store 0 NaN] k v i
    by metis
  have u: "\<exists>!k. k < length (shuffledOptions (\<lambda>i. 1 / 2) example_question)
          \<and> isSelected (selectedOriginalIndex (updateAnswer 2 (Some (Fin 3)) example_store)
                           example_question)
                        (shuffledOptions (\<lambda>i. 1 / 2) example_question ! k)"
    using selection_by_original_index
            [OF h, of example_question "updateAnswer 2 (Some (Fin 3)) example_store" 3 NaN] r3 s [of 3]
    by blast
  have n: "\<not> (\<exists>k. k < length (shuffledOptions (\<lambda>i. 1 / 2) example_question)
          \<and> isSelected (selectedOriginalIndex (updateAnswer 2 (Some (Fin 4)) example_store)
                           example_question)
                        (shuffledOptions (\<lambda>i. 1 / 2) example_question ! k))"
    using selection_by_original_index
            [OF h, of example_question "updateAnswer 2 (Some (Fin 4)) example_store" 4 NaN] r4 s [of 4]
    by blast
  show ?thesis
    by (rule conjI [OF h conjI [OF a conjI [OF s [of 3] conjI [OF e1 conjI [OF e0 conjI [OF u n]]]]]])
qed

section \<open>C3: \<open>updateAnswer\<close> rewrites the records of one question id\<close>

text \<open>
  Claim C3. For every state, question id and answer, \<open>updateAnswer\<close> keeps the number and
  the ids of the answer records and every other field of the quiz state; a record whose
  \<open>questionId\<close> is the given id gets the given \<open>selectedAnswer\<close> and
  \<open>isAnswered = (answer is not null)\<close>, every other record is unchanged. If no record has
  the id, the quiz state is unchanged and no record is added. With \<open>null\<close> the matching
  records become unanswered.
\<close>

theorem updateAnswer_by_questionId:
  "length (answers (quizState (updateAnswer qid answer s))) = length (answers (quizState s))
   \<and> (\<forall>i < length (answers (quizState s)).
         answers (quizState (updateAnswer qid answer s)) ! i
           = (if questionId (answers (quizState s) ! i) = qid
              then (answers (quizState s) ! i)
                     \<lparr>selectedAnswer := answer, isAnswered := (answer \<noteq> None)\<rparr>
              else answers (quizState s) ! i))
   \<and> quizState (updateAnswer qid answer s)
       = (quizState s)\<lparr>answers := answers (quizState (updateAnswer qid answer s))\<rparr>
   \<and> (qid \<notin> questionId ` set (answers (quizState s)) \<longrightarrow>
         quizState (updateAnswer qid answer s) = quizState s)
   \<and> (\<forall>i < length (answers (quizState s)).
         questionId (answers (quizState s) ! i) = qid \<longrightarrow>
           selectedAnswer (answers (quizState (updateAnswer qid None s)) ! i) = None
           \<and> \<not> isAnswered (answers (quizState (updateAnswer qid None s)) ! i))
   \<and> user (updateAnswer qid answer s) = user s
   \<and> isQuizStarted (updateAnswer qid answer s) = isQuizStarted s"
proof -
  let ?f = "\<lambda>answer a. if questionId a = qid
                 then a\<lparr>selectedAnswer := answer, isAnswered := (answer \<noteq> None)\<rparr> else a"
  have q: "quizState (updateAnswer qid answer s)
             = (quizState s)\<lparr>answers := map (?f answer) (answers (quizState s))\<rparr>" for answer
    by (rule quizState_updateAnswer)
  have same: "map (?f answer) (answers (quizState s)) = answers (quizState s)"
    if "qid \<notin> questionId ` set (answers (quizState s))"
    using that by (intro map_idI) auto
  have 1: "length (answers (quizState (updateAnswer qid answer s))) = length (answers (quizState s))"
    by (simp add: q)
  have 2: "\<forall>i < length (answers (quizState s)).
         answers (quizState (updateAnswer qid answer s)) ! i
           = (if questionId (answers (quizState s) ! i) = qid
              then (answers (quizState s) ! i)
                     \<lparr>selectedAnswer := answer, isAnswered := (answer \<noteq> None)\<rparr>
              else answers (quizState s) ! i)"
    by (simp add: q)
  have 3: "quizState (updateAnswer qid answer s)
       = (quizState s)\<lparr>answers := answers (quizState (updateAnswer qid answer s))\<rparr>"
    by (simp add: q)
  have 4: "qid \<notin> questionId ` set (answers (quizState s)) \<longrightarrow>
         quizState (updateAnswer qid answer s) = quizState s"
    using same by (simp add: q)
  have 5: "\<forall>i < length (answers (quizState s)).
         questionId (answers (quizState s) ! i) = qid \<longrightarrow>
           selectedAnswer (answers (quizState (updateAnswer qid None s)) ! i) = None
           \<and> \<not> isAnswered (answers (quizState (updateAnswer qid None s)) ! i)"
    by (simp add: q)
  have 6: "user (updateAnswer qid answer s) = user s"
    by (simp add: updateAnswer_def save_effect_def)
  have 7: "isQuizStarted (updateAnswer qid answer s) = isQuizStarted s"
    by (simp add: updateAnswer_def save_effect_def)
  show ?thesis
    using 1 2 3 4 5 6 7 by (intro conjI)
qed

theorem updateAnswer_by_questionId_witness:
  "answers (quizState (updateAnswer 2 (Some (Fin 3)) example_store))
     = [\<lparr>questionId = 1, selectedAnswer = None, isAnswered = False\<rparr>,
        \<lparr>questionId = 2, selectedAnswer = Some (Fin 3), isAnswered = True\<rparr>,
        \<lparr>questionId = 3, selectedAnswer = None, isAnswered = False\<rparr>]
   \<and> quizState (updateAnswer 9 (Some (Fin 3)) example_store) = quizState example_store
   \<and> answers (quizState (updateAnswer 2 None (updateAnswer 2 (Some (Fin 3)) example_store)))
       = answers (quizState example_store)
   \<and> 9 \<notin> questionId ` set (answers (quizState example_store))"
proof -
  note ev = quizState_updateAnswer example_store_def getInitialQuizState_def
    example_questions_def
  have a: "answers (quizState (updateAnswer 2 (Some (Fin 3)) example_store))
     = [\<lparr>questionId = 1, selectedAnswer = None, isAnswered = False\<rparr>,
        \<lparr>questionId = 2, selectedAnswer = Some (Fin 3), isAnswered = True\<rparr>,
        \<lparr>questionId = 3, selectedAnswer = None, isAnswered = False\<rparr>]"
    by (simp add: ev)
  have b: "9 \<notin> questionId ` set (answers (quizState example_store))"
    by (simp add: ev)
  have c: "answers (quizState (updateAnswer 2 None (updateAnswer 2 (Some (Fin 3)) example_store)))
       = answers (quizState example_store)"
    by (simp add: ev)
  have d: "9 \<notin> questionId ` set (answers (quizState example_store)) \<longrightarrow>
         quizState (updateAnswer 9 (Some (Fin 3)) example_store) = quizState example_store"
    using updateAnswer_by_questionId [of 9 "Some (Fin 3)" example_store] by blast
  show ?thesis using a b c d by blast
qed

lemma quizState_goToQuestion:
  "quizState (goToQuestion qs p s)
     = (if 0 \<le> p \<and> p < int (length qs) then (quizState s)\<lparr>currentQuestion := p\<rparr>
        else quizState s)"
  by (simp add: goToQuestion_def save_effect_def)

lemma quizState_nextQuestion:
  "quizState (nextQuestion qs s)
     = (quizState s)\<lparr>currentQuestion :=
          min (currentQuestion (quizState s) + 1) (int (length qs) - 1)\<rparr>"
  by (simp add: nextQuestion_def save_effect_def)

lemma quizState_previousQuestion:
  "quizState (previousQuestion s)
     = (quizState s)\<lparr>currentQuestion := max (currentQuestion (quizState s) - 1) 0\<rparr>"
  by (simp add: previousQuestion_def save_effect_def)

lemma storage_keys_distinct:
  "STORAGE_KEY \<noteq> USER_STORAGE_KEY" "STORAGE_KEY \<noteq> START_STORAGE_KEY"
  "STORAGE_KEY \<noteq> COMPLETED_KEY" "USER_STORAGE_KEY \<noteq> START_STORAGE_KEY"
  "USER_STORAGE_KEY \<noteq> COMPLETED_KEY" "START_STORAGE_KEY \<noteq> COMPLETED_KEY"
  by (simp_all add: STORAGE_KEY_def USER_STORAGE_KEY_def START_STORAGE_KEY_def COMPLETED_KEY_def)

lemma save_effect_idle:
  "\<not> isQuizStarted s \<or> isCompleted (quizState s) \<Longrightarrow> save_effect s = s"
  by (auto simp: save_effect_def)

lemma answers_example_answered:
  "answers (quizState example_answered)
     = [\<lparr>questionId = 1, selectedAnswer = Some (Fin 0), isAnswered = True\<rparr>,
        \<lparr>questionId = 2, selectedAnswer = Some (Fin 2), isAnswered = True\<rparr>,
        \<lparr>questionId = 3, selectedAnswer = Some (Fin 3), isAnswered = True\<rparr>]"
  by (simp add: example_answered_def quizState_updateAnswer example_store_def
      getInitialQuizState_def example_questions_def)

section \<open>C4: navigation keeps the position inside the bank\<close>




lemma foldl_score_step:
  "foldl (score_step qs) c as
     = c + length (filter (\<lambda>a. case find (\<lambda>q. idQ q = questionId a) qs of
                                  None \<Rightarrow> False
                                | Some q \<Rightarrow> selectedAnswer a = Some (Fin (correctAnswer q))) as)"
  by (induction as arbitrary: c) (simp_all add: score_step_def split: option.split)

lemma find_unique_id:
  assumes "distinct (map idQ qs)" and "q \<in> set qs"
  shows "find (\<lambda>q'. idQ q' = idQ q) qs = Some q"
  using assms by (induction qs) (auto simp: image_iff)

lemma counted_correct_find:
  assumes "distinct (map idQ qs)"
  shows "counted_correct qs a
           = (case find (\<lambda>q. idQ q = questionId a) qs of
                None \<Rightarrow> False
              | Some q \<Rightarrow> selectedAnswer a = Some (Fin (correctAnswer q)))"
proof (cases "find (\<lambda>q. idQ q = questionId a) qs")
  case None
  then have "\<forall>q \<in> set qs. idQ q \<noteq> questionId a"
    by (simp add: find_None_iff)
  then show ?thesis by (simp add: counted_correct_def None)
next
  case (Some q)
  then have q: "q \<in> set qs" "idQ q = questionId a"
    by (auto simp: find_Some_iff)
  have u: "q' = q" if "q' \<in> set qs" "idQ q' = questionId a" for q'
    using find_unique_id [OF assms that(1)] Some that(2) by simp
  have "counted_correct qs a \<longleftrightarrow> selectedAnswer a = Some (Fin (correctAnswer q))"
  proof
    assume "counted_correct qs a"
    then obtain q' where "q' \<in> set qs" "idQ q' = questionId a"
        "selectedAnswer a = Some (Fin (correctAnswer q'))"
      unfolding counted_correct_def by blast
    then show "selectedAnswer a = Some (Fin (correctAnswer q))"
      using u by blast
  next
    assume "selectedAnswer a = Some (Fin (correctAnswer q))"
    then show "counted_correct qs a"
      unfolding counted_correct_def using q by blast
  qed
  then show ?thesis by (simp add: Some)
qed

lemma score_step_unknown:
  "questionId a \<notin> idQ ` set qs \<Longrightarrow> score_step qs c a = c"
proof -
  assume "questionId a \<notin> idQ ` set qs"
  then have "find (\<lambda>q. idQ q = questionId a) qs = None"
    by (force simp: find_None_iff image_iff)
  then show ?thesis by (simp add: score_step_def)
qed

section \<open>C5: the score\<close>

text \<open>
  Claim C5. \<open>calculateScore\<close> is 0 while the quiz is not completed, whatever the answers.
  Once it is completed, the result is the number of answer records for which
  \<open>questions.find\<close> returns a question and \<open>selectedAnswer\<close> equals that question's
  \<open>correctAnswer\<close>; with unique question ids this is the number of records for which a
  question with the record's id exists and has the selected answer as its correct answer.
  A record whose id is not in the bank leaves the counter as it is.
\<close>

theorem calculateScore_counts_correct:
  "(\<not> isCompleted (quizState s) \<longrightarrow> calculateScore qs s = 0)
   \<and> (isCompleted (quizState s) \<longrightarrow>
        calculateScore qs s
          = length (filter (\<lambda>a. case find (\<lambda>q. idQ q = questionId a) qs of
                                   None \<Rightarrow> False
                                 | Some q \<Rightarrow> selectedAnswer a = Some (Fin (correctAnswer q)))
                           (answers (quizState s))))
   \<and> (isCompleted (quizState s) \<and> distinct (map idQ qs) \<longrightarrow>
        calculateScore qs s = length (filter (counted_correct qs) (answers (quizState s))))
   \<and> (\<forall>a c. questionId a \<notin> idQ ` set qs \<longrightarrow> score_step qs c a = c)"
proof -
  have 1: "\<not> isCompleted (quizState s) \<longrightarrow> calculateScore qs s = 0"
    by (simp add: calculateScore_def)
  have 2: "isCompleted (quizState s) \<longrightarrow>
        calculateScore qs s
          = length (filter (\<lambda>a. case find (\<lambda>q. idQ q = questionId a) qs of
                                   None \<Rightarrow> False
                                 | Some q \<Rightarrow> selectedAnswer a = Some (Fin (correctAnswer q)))
                           (answers (quizState s)))"
    by (simp add: calculateScore_def foldl_score_step)
  have 3: "isCompleted (quizState s) \<and> distinct (map idQ qs) \<longrightarrow>
        calculateScore qs s = length (filter (counted_correct qs) (answers (quizState s)))"
  proof
    assume a: "isCompleted (quizState s) \<and> distinct (map idQ qs)"
    then have "counted_correct qs
                 = (\<lambda>a. case find (\<lambda>q. idQ q = questionId a) qs of
                          None \<Rightarrow> False
                        | Some q \<Rightarrow> selectedAnswer a = Some (Fin (correctAnswer q)))"
      using counted_correct_find by blast
    then show "calculateScore qs s
                 = length (filter (counted_correct qs) (answers (quizState s)))"
      using 2 a by simp
  qed
  have 4: "\<forall>a c. questionId a \<notin> idQ ` set qs \<longrightarrow> score_step qs c a = c"
    using score_step_unknown by blast
  show ?thesis using 1 2 3 4 by (intro conjI)
qed

theorem calculateScore_counts_correct_witness:
  "\<not> isCompleted (quizState example_answered)
   \<and> calculateScore example_questions example_answered = 0
   \<and> isCompleted (quizState (submitQuiz example_answered))
   \<and> distinct (map idQ example_questions)
   \<and> calculateScore example_questions (submitQuiz example_answered) = 2
   \<and> length (filter (counted_correct example_questions)
                (answers (quizState (submitQuiz example_answered)))) = 2"
proof -
  have q: "quizState (submitQuiz example_answered)
             = (quizState example_answered)\<lparr>isCompleted := True\<rparr>"
    by (simp add: submitQuiz_def quizState_save_effect)
  have n: "\<not> isCompleted (quizState example_answered)"
    by (simp add: example_answered_def quizState_updateAnswer example_store_def
        getInitialQuizState_def)
  have c: "isCompleted (quizState (submitQuiz example_answered))"
    by (simp add: q)
  have d: "distinct (map idQ example_questions)"
    by (simp add: example_questions_def)
  have f: "length (filter (counted_correct example_questions)
                (answers (quizState (submitQuiz example_answered)))) = 2"
    by (simp add: q answers_example_answered counted_correct_def example_questions_def)
  have 0: "calculateScore example_questions example_answered = 0"
    using calculateScore_counts_correct [of example_answered example_questions] n by blast
  have 2: "calculateScore example_questions (submitQuiz example_answered) = 2"
    using calculateScore_counts_correct [of "submitQuiz example_answered" example_questions]
      c d f by simp
  show ?thesis using n 0 c d 2 f by (intro conjI)
qed

section \<open>C10: \<open>startQuiz\<close> keeps the position\<close>






section \<open>C6: completion freezes the timer and stops the persistence\<close>




section \<open>C7: \<open>resetQuiz\<close> wipes the session\<close>

text \<open>
  Claim C7. After any sequence of operations from any state, \<open>resetQuiz\<close> yields the fresh
  quiz state: position 0, one unanswered record per question in bank order, the full
  duration, not completed; the quiz is not started, the user is cleared, and the four
  storage keys (quiz state, started flag, completed flag, user) are absent, while every
  other key is as before.
\<close>

theorem resetQuiz_wipes_session:
  "quizState (resetQuiz qs now (run qs s events)) = getInitialQuizState qs now
   \<and> currentQuestion (quizState (resetQuiz qs now (run qs s events))) = 0
   \<and> answers (quizState (resetQuiz qs now (run qs s events)))
       = map (\<lambda>q. \<lparr>questionId = idQ q, selectedAnswer = None, isAnswered = False\<rparr>) qs
   \<and> timeRemaining (quizState (resetQuiz qs now (run qs s events))) = Fin 5400000
   \<and> \<not> isCompleted (quizState (resetQuiz qs now (run qs s events)))
   \<and> startTime (quizState (resetQuiz qs now (run qs s events))) = now
   \<and> \<not> isQuizStarted (resetQuiz qs now (run qs s events))
   \<and> user (resetQuiz qs now (run qs s events)) = None
   \<and> localStorage (resetQuiz qs now (run qs s events)) STORAGE_KEY = None
   \<and> localStorage (resetQuiz qs now (run qs s events)) START_STORAGE_KEY = None
   \<and> localStorage (resetQuiz qs now (run qs s events)) COMPLETED_KEY = None
   \<and> localStorage (resetQuiz qs now (run qs s events)) USER_STORAGE_KEY = None
   \<and> (\<forall>k. k \<notin> {STORAGE_KEY, START_STORAGE_KEY, COMPLETED_KEY, USER_STORAGE_KEY} \<longrightarrow>
         localStorage (resetQuiz qs now (run qs s events)) k = localStorage (run qs s events) k)
   \<and> getUnansweredQuestions (resetQuiz qs now (run qs s events)) = [0..<length qs]"
proof -
  define r where "r = run qs s events"
  have e: "resetQuiz qs now r
             = r\<lparr>quizState := getInitialQuizState qs now,
                 isQuizStarted := False,
                 localStorage :=
                   (localStorage r)(STORAGE_KEY := None, START_STORAGE_KEY := None,
                                    COMPLETED_KEY := None, USER_STORAGE_KEY := None),
                 user := None\<rparr>"
    by (simp add: resetQuiz_def save_effect_idle)
  have u: "map snd (filter (\<lambda>(answer, index). \<not> isAnswered answer)
             (zip (map (\<lambda>q. \<lparr>questionId = idQ q, selectedAnswer = None, isAnswered = False\<rparr>) qs)
                  [0..<length qs])) = [0..<length qs]"
  proof -
    have "filter (\<lambda>(answer, index). \<not> isAnswered answer)
             (zip (map (\<lambda>q. \<lparr>questionId = idQ q, selectedAnswer = None, isAnswered = False\<rparr>) qs)
                  [0..<length qs])
          = zip (map (\<lambda>q. \<lparr>questionId = idQ q, selectedAnswer = None, isAnswered = False\<rparr>) qs)
                  [0..<length qs]"
      by (rule filter_True) (auto dest!: set_zip_leftD)
    then show ?thesis by simp
  qed
  show ?thesis
    unfolding r_def [symmetric] e
    using storage_keys_distinct u
    by (simp add: getInitialQuizState_def QUIZ_DURATION_def getUnansweredQuestions_def)
qed

theorem resetQuiz_wipes_session_witness:
  "''theme'' \<notin> {STORAGE_KEY, START_STORAGE_KEY, COMPLETED_KEY, USER_STORAGE_KEY}
   \<and> quizState (resetQuiz example_questions 3000
         (run example_questions example_answered
            [(quizState example_answered, 2000, SubmitQuiz)]))
       = quizState (example_store\<lparr>quizState := (quizState example_store)\<lparr>startTime := 3000\<rparr>\<rparr>)
   \<and> \<not> isQuizStarted (resetQuiz example_questions 3000
         (run example_questions example_answered
            [(quizState example_answered, 2000, SubmitQuiz)]))
   \<and> localStorage (resetQuiz example_questions 3000
         (run example_questions example_answered
            [(quizState example_answered, 2000, SubmitQuiz)])) COMPLETED_KEY = None
   \<and> localStorage (run example_questions example_answered
                       [(quizState example_answered, 2000, SubmitQuiz)]) COMPLETED_KEY
       = Some (Json (JBool True))
   \<and> localStorage (resetQuiz example_questions 3000
         (run example_questions example_answered
            [(quizState example_answered, 2000, SubmitQuiz)])) ''theme''
       = localStorage (run example_questions example_answered
                         [(quizState example_answered, 2000, SubmitQuiz)]) ''theme''"
proof -
  let ?r = "run example_questions example_answered
              [(quizState example_answered, 2000, SubmitQuiz)]"
  note t = resetQuiz_wipes_session
             [of example_questions 3000 example_answered
                 "[(quizState example_answered, 2000, SubmitQuiz)]"]
  have k: "''theme'' \<notin> {STORAGE_KEY, START_STORAGE_KEY, COMPLETED_KEY, USER_STORAGE_KEY}"
    by (simp add: STORAGE_KEY_def USER_STORAGE_KEY_def START_STORAGE_KEY_def COMPLETED_KEY_def)
  have 1: "quizState (resetQuiz example_questions 3000 ?r)
       = quizState (example_store\<lparr>quizState := (quizState example_store)\<lparr>startTime := 3000\<rparr>\<rparr>)"
    using t by (simp add: example_store_def getInitialQuizState_def)
  have 2: "\<not> isQuizStarted (resetQuiz example_questions 3000 ?r)"
    using t by blast
  have 3: "localStorage (resetQuiz example_questions 3000 ?r) COMPLETED_KEY = None"
    using t by blast
  have 4: "localStorage ?r COMPLETED_KEY = Some (Json (JBool True))"
    using storage_keys_distinct by (simp add: run_def submitQuiz_def save_effect_idle)
  have 5: "localStorage (resetQuiz example_questions 3000 ?r) ''theme'' = localStorage ?r ''theme''"
    using t k by blast
  show ?thesis using k 1 2 3 4 5 by (intro conjI)
qed

lemma asUserAnswer_jsonUserAnswer: "asUserAnswer (jsonUserAnswer a) = Some a"
  by (cases "selectedAnswer a") (simp_all add: asUserAnswer_def jsonUserAnswer_def)

lemma those_answers_json: "those_answers (map jsonUserAnswer as) = Some as"
  by (induction as) (simp_all add: asUserAnswer_jsonUserAnswer)

lemma asQuizState_jsonQuizState: "asQuizState (jsonQuizState st) = Some st"
  by (simp add: asQuizState_def jsonQuizState_def jsonFields_def those_answers_json)

lemma written_number: "written (JNum n) = JNum n \<longleftrightarrow> finite_number n"
  by (cases n) (simp_all add: finite_number_def)

lemma written_jsonUserAnswer:
  "written (jsonUserAnswer a) = jsonUserAnswer a
     \<longleftrightarrow> (case selectedAnswer a of None \<Rightarrow> True | Some n \<Rightarrow> finite_number n)"
proof (cases "selectedAnswer a")
  case None
  then show ?thesis by (simp add: jsonUserAnswer_def)
next
  case (Some n)
  then show ?thesis
    using written_number [of n] by (simp add: jsonUserAnswer_def)
qed

lemma written_answers:
  "map written (map jsonUserAnswer as) = map jsonUserAnswer as
     \<longleftrightarrow> list_all (\<lambda>a. case selectedAnswer a of None \<Rightarrow> True | Some n \<Rightarrow> finite_number n) as"
  by (induction as) (simp_all add: written_jsonUserAnswer)

lemma written_jsonFields:
  "map (map_prod id written) (jsonFields st) = jsonFields st \<longleftrightarrow> finite_numbers st"
  using written_number [of "timeRemaining st"] written_answers [of "answers st"]
  by (simp add: jsonFields_def finite_numbers_def) blast

lemma written_jsonQuizState:
  "written (jsonQuizState st) = jsonQuizState st \<longleftrightarrow> finite_numbers st"
  using written_jsonFields [of st] by (simp add: jsonQuizState_def)

lemma finite_numbers_startTime: "finite_numbers (st\<lparr>startTime := t\<rparr>) = finite_numbers st"
  by (simp add: finite_numbers_def)

lemma try_adopt_object:
  "try_adopt qs now (Json (JObj kvs))
     = (case member_length (map_of kvs ''answers'') of
          Inl e \<Rightarrow> Inl e
        | Inr n \<Rightarrow>
            if n = Some (JNum (Fin (int (length qs))))
            then Inr (Some (JObj (AList.update ''startTime''
                           (startTime_or_now (map_of kvs ''startTime'') now) kvs)))
            else Inr None)"
  by (simp add: try_adopt_def JSON_parse_def)

lemma initialQuizState_object:
  assumes "ls STORAGE_KEY = Some (Json (JObj kvs))"
  shows "initialQuizState qs now ls
     = Inr (if member_length (map_of kvs ''answers'') = Inr (Some (JNum (Fin (int (length qs)))))
            then JObj (AList.update ''startTime''
                        (startTime_or_now (map_of kvs ''startTime'') now) kvs)
            else jsonQuizState (getInitialQuizState qs now))"
  by (cases "member_length (map_of kvs ''answers'')")
     (simp_all add: initialQuizState_def assms try_adopt_object)

lemma initialQuizState_stringified:
  assumes "ls STORAGE_KEY = Some (JSON_stringify (jsonQuizState st))"
  shows "initialQuizState qs now ls
     = Inr (if length (answers st) = length qs
            then written (jsonQuizState
                            (st\<lparr>startTime := if startTime st = 0 then now else startTime st\<rparr>))
            else jsonQuizState (getInitialQuizState qs now))"
proof -
  let ?kvs = "[(''currentQuestion'', JNum (Fin (currentQuestion st))),
               (''answers'', JArr (map written (map jsonUserAnswer (answers st)))),
               (''timeRemaining'', written (JNum (timeRemaining st))),
               (''isCompleted'', JBool (isCompleted st)),
               (''startTime'', JNum (Fin (startTime st)))]"
  have k: "ls STORAGE_KEY = Some (Json (JObj ?kvs))"
    using assms by (simp add: JSON_stringify_def jsonQuizState_def jsonFields_def)
  show ?thesis
    unfolding initialQuizState_object [where ls = ls and kvs = ?kvs, OF k]
    by (simp add: startTime_or_now_def jsonQuizState_def jsonFields_def)
qed






lemma answers_length_dispatch:
  assumes "length (answers (quizState s)) = length qs"
  shows "length (answers (quizState (dispatch qs s c))) = length qs"
proof -
  obtain shown now a where c: "c = (shown, now, a)" by (cases c)
  show ?thesis
    unfolding c using assms
    by (cases a)
       (simp_all add: setUser_def startQuiz_def updateAnswer_def goToQuestion_def
          nextQuestion_def previousQuestion_def skipQuestion_def submitQuiz_def resetQuiz_def
          updateTimer_def quizState_save_effect getInitialQuizState_def Let_def)
qed

lemma answers_length_run:
  assumes "length (answers (quizState s)) = length qs"
  shows "length (answers (quizState (run qs s calls))) = length qs"
  using assms
proof (induction calls arbitrary: s)
  case Nil
  then show ?case by (simp add: run_def)
next
  case (Cons c calls)
  have "run qs s (c # calls) = run qs (dispatch qs s c) calls"
    by (simp add: run_def)
  then show ?case
    using Cons.IH [OF answers_length_dispatch [OF Cons.prems]] by simp
qed


section \<open>C8: the initial quiz state\<close>





lemma finite_numbers_dispatch:
  assumes "finite_numbers (quizState s)" and "finite_call c"
  shows "finite_numbers (quizState (dispatch qs s c))"
proof -
  obtain shown now a where c: "c = (shown, now, a)" by (cases c)
  have fresh: "finite_numbers ((quizState s)
                 \<lparr>answers := answers (getInitialQuizState qs now), startTime := now,
                  timeRemaining := Fin QUIZ_DURATION\<rparr>)"
    by (simp add: finite_numbers_def finite_number_def getInitialQuizState_def list_all_iff)
  have init: "finite_numbers (getInitialQuizState qs now)"
    by (simp add: finite_numbers_def finite_number_def getInitialQuizState_def list_all_iff)
  show ?thesis
  proof (cases a)
    case (SetUser u)
    then show ?thesis using assms(1) by (simp add: c setUser_def)
  next
    case StartQuiz
    then show ?thesis
      using assms(1) fresh by (simp add: c startQuiz_def quizState_save_effect Let_def)
  next
    case (UpdateAnswer qid answer)
    then have "case answer of None \<Rightarrow> True | Some n \<Rightarrow> finite_number n"
      using assms(2) by (simp add: c)
    then show ?thesis
      using assms(1)
      by (auto simp: c UpdateAnswer quizState_updateAnswer finite_numbers_def list_all_iff
          split: option.splits)
  next
    case (GoToQuestion i)
    then show ?thesis
      using assms(1) by (simp add: c quizState_goToQuestion finite_numbers_def)
  next
    case NextQuestion
    then show ?thesis
      using assms(1) by (simp add: c quizState_nextQuestion finite_numbers_def)
  next
    case PreviousQuestion
    then show ?thesis
      using assms(1) by (simp add: c quizState_previousQuestion finite_numbers_def)
  next
    case SkipQuestion
    then show ?thesis
      using assms(1) by (simp add: c skipQuestion_def quizState_nextQuestion finite_numbers_def)
  next
    case SubmitQuiz
    then show ?thesis
      using assms(1) by (simp add: c submitQuiz_def quizState_save_effect finite_numbers_def)
  next
    case ResetQuiz
    then show ?thesis
      using init by (simp add: c resetQuiz_def quizState_save_effect)
  next
    case (UpdateTimer t)
    then have "finite_number t" using assms(2) by (simp add: c)
    then show ?thesis
      using assms(1)
      by (simp add: c UpdateTimer updateTimer_def quizState_save_effect finite_numbers_def)
  qed
qed

lemma finite_numbers_run:
  assumes "finite_numbers (quizState s)" and "list_all finite_call calls"
  shows "finite_numbers (quizState (run qs s calls))"
  using assms
proof (induction calls arbitrary: s)
  case Nil
  then show ?case by (simp add: run_def)
next
  case (Cons c calls)
  have "run qs s (c # calls) = run qs (dispatch qs s c) calls"
    by (simp add: run_def)
  then show ?case
    using Cons.IH [of "dispatch qs s c"] finite_numbers_dispatch [of s c qs] Cons.prems
    by simp
qed

section \<open>C9: what the save effect writes, the initializer reads back\<close>

text \<open>
  Claim C9 says that every quiz state reachable by the operations survives serialising and
  rehydrating. \<open>updateTimer\<close> stores its argument unchecked, and \<open>JSON.stringify\<close> writes
  \<open>NaN\<close> as \<open>null\<close>. In the started, not completed example state \<open>updateTimer(NaN)\<close> leaves
  \<open>timeRemaining = NaN\<close>; the save effect writes the state, and the initializer over the
  same bank returns an object whose \<open>timeRemaining\<close> is \<open>null\<close>, which is not that state.
\<close>

theorem persistence_counterexample:
  "isQuizStarted example_store
   \<and> \<not> isCompleted (quizState example_store)
   \<and> timeRemaining (quizState (updateTimer (quizState example_store) NaN example_store)) = NaN
   \<and> initialQuizState example_questions 3000
         (localStorage (updateTimer (quizState example_store) NaN example_store))
       = Inr (JObj [(''currentQuestion'', JNum (Fin 0)),
                    (''answers'',
                       JArr [JObj [(''questionId'', JNum (Fin 1)), (''selectedAnswer'', JNull),
                                   (''isAnswered'', JBool False)],
                             JObj [(''questionId'', JNum (Fin 2)), (''selectedAnswer'', JNull),
                                   (''isAnswered'', JBool False)],
                             JObj [(''questionId'', JNum (Fin 3)), (''selectedAnswer'', JNull),
                                   (''isAnswered'', JBool False)]]),
                    (''timeRemaining'', JNull),
                    (''isCompleted'', JBool False),
                    (''startTime'', JNum (Fin 1000))])
   \<and> map_sum id asQuizState
         (initialQuizState example_questions 3000
            (localStorage (updateTimer (quizState example_store) NaN example_store)))
       \<noteq> Inr (Some (quizState (updateTimer (quizState example_store) NaN example_store)))"
proof -
  let ?s = "updateTimer (quizState example_store) NaN example_store"
  have i: "isQuizStarted example_store" "\<not> isCompleted (quizState example_store)"
    by (simp_all add: example_store_def getInitialQuizState_def)
  have q: "quizState ?s = (quizState example_store)\<lparr>timeRemaining := NaN\<rparr>"
    using i by (simp add: updateTimer_def quizState_save_effect)
  have k: "localStorage ?s STORAGE_KEY
             = Some (JSON_stringify (jsonQuizState ((quizState example_store)\<lparr>timeRemaining := NaN\<rparr>)))"
    using i by (simp add: updateTimer_def save_effect_def)
  have l: "length (answers ((quizState example_store)\<lparr>timeRemaining := NaN\<rparr>))
             = length example_questions"
    by (simp add: example_store_def getInitialQuizState_def)
  have r: "initialQuizState example_questions 3000 (localStorage ?s)
       = Inr (JObj [(''currentQuestion'', JNum (Fin 0)),
                    (''answers'',
                       JArr [JObj [(''questionId'', JNum (Fin 1)), (''selectedAnswer'', JNull),
                                   (''isAnswered'', JBool False)],
                             JObj [(''questionId'', JNum (Fin 2)), (''selectedAnswer'', JNull),
                                   (''isAnswered'', JBool False)],
                             JObj [(''questionId'', JNum (Fin 3)), (''selectedAnswer'', JNull),
                                   (''isAnswered'', JBool False)]]),
                    (''timeRemaining'', JNull),
                    (''isCompleted'', JBool False),
                    (''startTime'', JNum (Fin 1000))])"
    unfolding initialQuizState_stringified [where ls = "localStorage ?s", OF k]
    by (simp add: l)
       (simp add: jsonQuizState_def jsonFields_def jsonUserAnswer_def example_store_def
          getInitialQuizState_def example_questions_def)
  have 1: "timeRemaining (quizState ?s) = NaN"
    by (simp add: q)
  have 2: "map_sum id asQuizState (initialQuizState example_questions 3000 (localStorage ?s))
             \<noteq> Inr (Some (quizState ?s))"
    unfolding r by (simp add: asQuizState_def)
  show ?thesis
    by (rule conjI [OF i(1) conjI [OF i(2) conjI [OF 1 conjI [OF r 2]]]])
qed

text \<open>
  Claim C9, amended. Take a quiz state with one answer record per question, serialise it
  into the quiz-state key and run the initializer with a bank of that many questions. The
  value returned is what \<open>JSON.stringify\<close> wrote of the state, with \<open>startTime\<close> replaced by
  the current time when it is 0 (falsy). When \<open>timeRemaining\<close> and every \<open>selectedAnswer\<close> of
  the state are finite numbers (or null), this is the serialisation of the state itself,
  and read back as a typed quiz state it is that state; when one of them is \<open>NaN\<close> or
  infinite, it is not. Finite numbers are what every state has that is reached from a
  state with finite numbers by calls whose number arguments are finite; for such a state
  the round trip holds, also through the storage as the save effect leaves it in a
  started, not completed quiz.
\<close>

theorem persistence_round_trip:
  "(length (answers st) = length qs \<longrightarrow>
      initialQuizState qs now (ls(STORAGE_KEY \<mapsto> JSON_stringify (jsonQuizState st)))
        = Inr (written (jsonQuizState
                          (st\<lparr>startTime := if startTime st = 0 then now else startTime st\<rparr>)))
      \<and> (finite_numbers st \<longrightarrow>
            initialQuizState qs now (ls(STORAGE_KEY \<mapsto> JSON_stringify (jsonQuizState st)))
              = Inr (jsonQuizState
                       (st\<lparr>startTime := if startTime st = 0 then now else startTime st\<rparr>))
            \<and> (startTime st \<noteq> 0 \<longrightarrow>
                  map_sum id asQuizState
                    (initialQuizState qs now
                       (ls(STORAGE_KEY \<mapsto> JSON_stringify (jsonQuizState st))))
                  = Inr (Some st)))
      \<and> (\<not> finite_numbers st \<longrightarrow>
            initialQuizState qs now (ls(STORAGE_KEY \<mapsto> JSON_stringify (jsonQuizState st)))
              \<noteq> Inr (jsonQuizState
                        (st\<lparr>startTime := if startTime st = 0 then now else startTime st\<rparr>))))
   \<and> (length (answers (quizState s)) = length qs \<and> finite_numbers (quizState s)
        \<and> list_all finite_call calls \<longrightarrow>
        map_sum id asQuizState
          (initialQuizState qs now
             ((localStorage (run qs s calls))
                (STORAGE_KEY \<mapsto> JSON_stringify (jsonQuizState (quizState (run qs s calls))))))
        = Inr (Some ((quizState (run qs s calls))
                \<lparr>startTime := if startTime (quizState (run qs s calls)) = 0 then now
                               else startTime (quizState (run qs s calls))\<rparr>)))
   \<and> (length (answers (quizState s)) = length qs \<and> finite_numbers (quizState s)
        \<and> isQuizStarted s \<and> \<not> isCompleted (quizState s) \<longrightarrow>
        map_sum id asQuizState (initialQuizState qs now (localStorage (save_effect s)))
        = Inr (Some ((quizState s)
                \<lparr>startTime := if startTime (quizState s) = 0 then now
                               else startTime (quizState s)\<rparr>)))"
proof -
  have wr: "initialQuizState qs now (ls'(STORAGE_KEY \<mapsto> JSON_stringify (jsonQuizState st')))
        = Inr (written (jsonQuizState
                 (st'\<lparr>startTime := if startTime st' = 0 then now else startTime st'\<rparr>)))"
    if "length (answers st') = length qs" for st' ls'
    using initialQuizState_stringified
            [where ls = "ls'(STORAGE_KEY \<mapsto> JSON_stringify (jsonQuizState st'))"
               and st = st' and qs = qs and now = now] that
    by simp
  have fin: "written (jsonQuizState
                 (st'\<lparr>startTime := if startTime st' = 0 then now else startTime st'\<rparr>))
               = jsonQuizState
                   (st'\<lparr>startTime := if startTime st' = 0 then now else startTime st'\<rparr>)
             \<longleftrightarrow> finite_numbers st'" for st'
    by (simp only: written_jsonQuizState finite_numbers_startTime)
  have rt: "initialQuizState qs now (ls'(STORAGE_KEY \<mapsto> JSON_stringify (jsonQuizState st')))
        = Inr (jsonQuizState (st'\<lparr>startTime := if startTime st' = 0 then now else startTime st'\<rparr>))"
    if "length (answers st') = length qs" and "finite_numbers st'" for st' ls'
    using wr [OF that(1)] fin [of st'] that(2) by simp
  have 1: "length (answers st) = length qs \<longrightarrow>
      initialQuizState qs now (ls(STORAGE_KEY \<mapsto> JSON_stringify (jsonQuizState st)))
        = Inr (written (jsonQuizState
                          (st\<lparr>startTime := if startTime st = 0 then now else startTime st\<rparr>)))
      \<and> (finite_numbers st \<longrightarrow>
            initialQuizState qs now (ls(STORAGE_KEY \<mapsto> JSON_stringify (jsonQuizState st)))
              = Inr (jsonQuizState
                       (st\<lparr>startTime := if startTime st = 0 then now else startTime st\<rparr>))
            \<and> (startTime st \<noteq> 0 \<longrightarrow>
                  map_sum id asQuizState
                    (initialQuizState qs now
                       (ls(STORAGE_KEY \<mapsto> JSON_stringify (jsonQuizState st))))
                  = Inr (Some st)))
      \<and> (\<not> finite_numbers st \<longrightarrow>
            initialQuizState qs now (ls(STORAGE_KEY \<mapsto> JSON_stringify (jsonQuizState st)))
              \<noteq> Inr (jsonQuizState
                        (st\<lparr>startTime := if startTime st = 0 then now else startTime st\<rparr>)))"
  proof
    assume l: "length (answers st) = length qs"
    have a: "initialQuizState qs now (ls(STORAGE_KEY \<mapsto> JSON_stringify (jsonQuizState st)))
        = Inr (written (jsonQuizState
                          (st\<lparr>startTime := if startTime st = 0 then now else startTime st\<rparr>)))"
      by (rule wr [OF l])
    have b: "finite_numbers st \<longrightarrow>
            initialQuizState qs now (ls(STORAGE_KEY \<mapsto> JSON_stringify (jsonQuizState st)))
              = Inr (jsonQuizState
                       (st\<lparr>startTime := if startTime st = 0 then now else startTime st\<rparr>))
            \<and> (startTime st \<noteq> 0 \<longrightarrow>
                  map_sum id asQuizState
                    (initialQuizState qs now
                       (ls(STORAGE_KEY \<mapsto> JSON_stringify (jsonQuizState st))))
                  = Inr (Some st))"
      by (simp add: rt [OF l] asQuizState_jsonQuizState)
    have c: "\<not> finite_numbers st \<longrightarrow>
            initialQuizState qs now (ls(STORAGE_KEY \<mapsto> JSON_stringify (jsonQuizState st)))
              \<noteq> Inr (jsonQuizState
                        (st\<lparr>startTime := if startTime st = 0 then now else startTime st\<rparr>))"
      unfolding a using fin [of st] by simp
    show "initialQuizState qs now (ls(STORAGE_KEY \<mapsto> JSON_stringify (jsonQuizState st)))
        = Inr (written (jsonQuizState
                          (st\<lparr>startTime := if startTime st = 0 then now else startTime st\<rparr>)))
      \<and> (finite_numbers st \<longrightarrow>
            initialQuizState qs now (ls(STORAGE_KEY \<mapsto> JSON_stringify (jsonQuizState st)))
              = Inr (jsonQuizState
                       (st\<lparr>startTime := if startTime st = 0 then now else startTime st\<rparr>))
            \<and> (startTime st \<noteq> 0 \<longrightarrow>
                  map_sum id asQuizState
                    (initialQuizState qs now
                       (ls(STORAGE_KEY \<mapsto> JSON_stringify (jsonQuizState st))))
                  = Inr (Some st)))
      \<and> (\<not> finite_numbers st \<longrightarrow>
            initialQuizState qs now (ls(STORAGE_KEY \<mapsto> JSON_stringify (jsonQuizState st)))
              \<noteq> Inr (jsonQuizState
                        (st\<lparr>startTime := if startTime st = 0 then now else startTime st\<rparr>)))"
      by (rule conjI [OF a conjI [OF b c]])
  qed
  have 2: "length (answers (quizState s)) = length qs \<and> finite_numbers (quizState s)
        \<and> list_all finite_call calls \<longrightarrow>
        map_sum id asQuizState
          (initialQuizState qs now
             ((localStorage (run qs s calls))
                (STORAGE_KEY \<mapsto> JSON_stringify (jsonQuizState (quizState (run qs s calls))))))
        = Inr (Some ((quizState (run qs s calls))
                \<lparr>startTime := if startTime (quizState (run qs s calls)) = 0 then now
                               else startTime (quizState (run qs s calls))\<rparr>))"
  proof
    assume a: "length (answers (quizState s)) = length qs \<and> finite_numbers (quizState s)
        \<and> list_all finite_call calls"
    have l: "length (answers (quizState (run qs s calls))) = length qs"
      using a by (intro answers_length_run) simp
    have f: "finite_numbers (quizState (run qs s calls))"
      using a by (intro finite_numbers_run) simp_all
    show "map_sum id asQuizState
          (initialQuizState qs now
             ((localStorage (run qs s calls))
                (STORAGE_KEY \<mapsto> JSON_stringify (jsonQuizState (quizState (run qs s calls))))))
        = Inr (Some ((quizState (run qs s calls))
                \<lparr>startTime := if startTime (quizState (run qs s calls)) = 0 then now
                               else startTime (quizState (run qs s calls))\<rparr>))"
      by (simp only: rt [OF l f]) (simp add: asQuizState_jsonQuizState)
  qed
  have 3: "length (answers (quizState s)) = length qs \<and> finite_numbers (quizState s)
        \<and> isQuizStarted s \<and> \<not> isCompleted (quizState s) \<longrightarrow>
        map_sum id asQuizState (initialQuizState qs now (localStorage (save_effect s)))
        = Inr (Some ((quizState s)
                \<lparr>startTime := if startTime (quizState s) = 0 then now
                               else startTime (quizState s)\<rparr>))"
  proof
    assume a: "length (answers (quizState s)) = length qs \<and> finite_numbers (quizState s)
        \<and> isQuizStarted s \<and> \<not> isCompleted (quizState s)"
    then have e: "localStorage (save_effect s)
                 = (localStorage s)(STORAGE_KEY \<mapsto> JSON_stringify (jsonQuizState (quizState s)))"
      by (simp add: save_effect_def)
    have l: "length (answers (quizState s)) = length qs" and f: "finite_numbers (quizState s)"
      using a by simp_all
    show "map_sum id asQuizState (initialQuizState qs now (localStorage (save_effect s)))
        = Inr (Some ((quizState s)
                \<lparr>startTime := if startTime (quizState s) = 0 then now
                               else startTime (quizState s)\<rparr>))"
      unfolding e by (simp only: rt [OF l f]) (simp add: asQuizState_jsonQuizState)
  qed
  show ?thesis
    by (rule conjI [OF 1 conjI [OF 2 3]])
qed

theorem persistence_round_trip_witness:
  "length (answers (quizState example_store)) = length example_questions
   \<and> finite_numbers (quizState example_store)
   \<and> list_all finite_call
         [(quizState example_store, 1500, UpdateAnswer 2 (Some (Fin 3))),
          (quizState example_store, 1600, NextQuestion)]
   \<and> isQuizStarted example_store \<and> \<not> isCompleted (quizState example_store)
   \<and> quizState (run example_questions example_store
                  [(quizState example_store, 1500, UpdateAnswer 2 (Some (Fin 3))),
                   (quizState example_store, 1600, NextQuestion)])
       = \<lparr>currentQuestion = 1,
          answers = [\<lparr>questionId = 1, selectedAnswer = None, isAnswered = False\<rparr>,
                     \<lparr>questionId = 2, selectedAnswer = Some (Fin 3), isAnswered = True\<rparr>,
                     \<lparr>questionId = 3, selectedAnswer = None, isAnswered = False\<rparr>],
          timeRemaining = Fin 5400000, isCompleted = False, startTime = 1000\<rparr>
   \<and> map_sum id asQuizState
        (initialQuizState example_questions 3000
           ((localStorage (run example_questions example_store
                             [(quizState example_store, 1500, UpdateAnswer 2 (Some (Fin 3))),
                              (quizState example_store, 1600, NextQuestion)]))
              (STORAGE_KEY \<mapsto> JSON_stringify (jsonQuizState (quizState
                 (run example_questions example_store
                    [(quizState example_store, 1500, UpdateAnswer 2 (Some (Fin 3))),
                     (quizState example_store, 1600, NextQuestion)]))))))
       = Inr (Some (quizState (run example_questions example_store
                      [(quizState example_store, 1500, UpdateAnswer 2 (Some (Fin 3))),
                       (quizState example_store, 1600, NextQuestion)])))
   \<and> map_sum id asQuizState
        (initialQuizState example_questions 3000 (localStorage (save_effect example_store)))
       = Inr (Some (quizState example_store))
   \<and> \<not> finite_numbers ((quizState example_store)\<lparr>timeRemaining := NaN\<rparr>)
   \<and> initialQuizState example_questions 3000
        [STORAGE_KEY \<mapsto>
           JSON_stringify (jsonQuizState ((quizState example_store)\<lparr>timeRemaining := NaN\<rparr>))]
       \<noteq> Inr (jsonQuizState ((quizState example_store)\<lparr>timeRemaining := NaN\<rparr>))"
proof -
  let ?cs = "[(quizState example_store, 1500::int, UpdateAnswer 2 (Some (Fin 3))),
              (quizState example_store, 1600, NextQuestion)]"
  let ?r = "run example_questions example_store ?cs"
  let ?n = "(quizState example_store)\<lparr>timeRemaining := NaN\<rparr>"
  have l: "length (answers (quizState example_store)) = length example_questions"
    by (simp add: example_questions_def example_store_def getInitialQuizState_def)
  have f: "finite_numbers (quizState example_store)"
    by (simp add: finite_numbers_def finite_number_def example_store_def
        getInitialQuizState_def list_all_iff)
  have c: "list_all finite_call ?cs"
    by (simp add: finite_number_def)
  have i: "isQuizStarted example_store" "\<not> isCompleted (quizState example_store)"
    by (simp_all add: example_store_def getInitialQuizState_def)
  have r: "quizState ?r
       = \<lparr>currentQuestion = 1,
          answers = [\<lparr>questionId = 1, selectedAnswer = None, isAnswered = False\<rparr>,
                     \<lparr>questionId = 2, selectedAnswer = Some (Fin 3), isAnswered = True\<rparr>,
                     \<lparr>questionId = 3, selectedAnswer = None, isAnswered = False\<rparr>],
          timeRemaining = Fin 5400000, isCompleted = False, startTime = 1000\<rparr>"
    by (simp add: run_def quizState_nextQuestion quizState_updateAnswer example_store_def
        getInitialQuizState_def example_questions_def QUIZ_DURATION_def)
  have u: "(quizState ?r)\<lparr>startTime := if startTime (quizState ?r) = 0 then 3000
                                        else startTime (quizState ?r)\<rparr> = quizState ?r"
    by (simp add: r)
  have v: "(quizState example_store)
             \<lparr>startTime := if startTime (quizState example_store) = 0 then 3000
                            else startTime (quizState example_store)\<rparr> = quizState example_store"
    by (simp add: example_store_def getInitialQuizState_def)
  have ln: "length (answers ?n) = length example_questions"
    using l by simp
  have nf: "\<not> finite_numbers ?n"
    by (simp add: finite_numbers_def finite_number_def)
  have sn: "?n\<lparr>startTime := if startTime ?n = 0 then 3000 else startTime ?n\<rparr> = ?n"
    by (simp add: example_store_def getInitialQuizState_def)
  note p = persistence_round_trip
             [where qs = example_questions and s = example_store and calls = ?cs
                and now = 3000 and st = ?n and ls = Map.empty]
  have 1: "map_sum id asQuizState
        (initialQuizState example_questions 3000
           ((localStorage ?r)(STORAGE_KEY \<mapsto> JSON_stringify (jsonQuizState (quizState ?r)))))
       = Inr (Some (quizState ?r))"
    using p [THEN conjunct2, THEN conjunct1] l f c unfolding u by blast
  have 2: "map_sum id asQuizState
        (initialQuizState example_questions 3000 (localStorage (save_effect example_store)))
       = Inr (Some (quizState example_store))"
    using p [THEN conjunct2, THEN conjunct2] l f i unfolding v by blast
  have 3: "initialQuizState example_questions 3000
             [STORAGE_KEY \<mapsto> JSON_stringify (jsonQuizState ?n)]
           \<noteq> Inr (jsonQuizState ?n)"
    using p [THEN conjunct1, THEN mp, OF ln, THEN conjunct2, THEN conjunct2, THEN mp, OF nf]
    unfolding sn .
  show ?thesis
    by (rule conjI [OF l conjI [OF f conjI [OF c conjI [OF i(1) conjI [OF i(2) conjI [OF r
          conjI [OF 1 conjI [OF 2 conjI [OF nf 3]]]]]]]]])
qed

end
